theory Spec2Isabelle
  imports Complex_Main "HOL-Library.Word" "HOL-Library.Monad_Syntax"
begin

section \<open>The Macaroni audio driver: data model\<close>

text \<open>
  The driver (\<^verbatim>\<open>MacaroniAudioDriver.cpp\<close>) is a client of the platform's audio driver
  framework. Its own state is the block \<^verbatim>\<open>MacaroniAudioDriver_IVars\<close>; everything else it
  touches (device, streams, controls, buffers) is an object of the framework, reached
  through reference-counted pointers. The model keeps the two apart:

  \<^item> the state block is a record whose pointer fields are \<open>addr option\<close>
    (\<open>None\<close> is the null pointer);
  \<^item> framework objects live in a store, one map per class, from addresses to records,
    so that the sharing the code sets up (the device refers to the streams, a stream
    refers to its buffer) is visible;
  \<^item> what a framework call answers is not decided by the driver: each call whose result
    the driver can observe takes its answer from a record \<open>host\<close> of outcomes;
  \<^item> every call that leaves the driver is appended to the ghost field \<open>calls\<close>, so
    that the order of the driver's actions can be stated.
\<close>

type_synonym kern_return_t = "32 word"
type_synonym IOUserAudioObjectID = "32 word"
type_synonym addr = nat

text \<open>
  The two status codes the driver names. Their numeric values come from the platform
  header (\<^verbatim>\<open>kIOReturnSuccess\<close> is 0, \<^verbatim>\<open>kIOReturnNoMemory\<close> is \<^verbatim>\<open>0xE00002BD\<close>).
\<close>

definition kIOReturnSuccess :: kern_return_t where
  "kIOReturnSuccess = 0"

definition kIOReturnNoMemory :: kern_return_t where
  "kIOReturnNoMemory = 0xE00002BD"

subsection \<open>Constants of the driver\<close>

definition kSampleRate :: "32 word" where
  "kSampleRate = 48000"

definition kNumChannels :: "32 word" where
  "kNumChannels = 2"

definition kBitsPerChannel :: "32 word" where
  "kBitsPerChannel = 32"

definition kBytesPerFrame :: "32 word" where
  "kBytesPerFrame = (kBitsPerChannel div 8) * kNumChannels"

definition kBufferFrames :: "32 word" where
  "kBufferFrames = 512"

definition kDeviceObjectID :: IOUserAudioObjectID where
  "kDeviceObjectID = 1"

definition kInputStreamObjectID :: IOUserAudioObjectID where
  "kInputStreamObjectID = 2"

definition kOutputStreamObjectID :: IOUserAudioObjectID where
  "kOutputStreamObjectID = 3"

definition kVolumeControlObjectID :: IOUserAudioObjectID where
  "kVolumeControlObjectID = 4"

definition kMuteControlObjectID :: IOUserAudioObjectID where
  "kMuteControlObjectID = 5"

text \<open>
  Constants of the framework that the driver passes on unchanged: the format id
  \<^verbatim>\<open>'lpcm'\<close>, the two format flags, the main element, the memory direction.
\<close>

definition kIOUserAudioFormatLinearPCM :: "32 word" where
  "kIOUserAudioFormatLinearPCM = 0x6C70636D"

definition kIOUserAudioFormatFlagIsFloat :: "32 word" where
  "kIOUserAudioFormatFlagIsFloat = 1"

definition kIOUserAudioFormatFlagIsPacked :: "32 word" where
  "kIOUserAudioFormatFlagIsPacked = 8"

definition kIOUserAudioObjectPropertyElementMain :: "32 word" where
  "kIOUserAudioObjectPropertyElementMain = 0"

definition kIOMemoryDirectionInOut :: "64 word" where
  "kIOMemoryDirectionInOut = 3"

subsection \<open>Framework objects\<close>

record IOUserAudioStreamBasicDescription =
  mSampleRate :: real
  mFormatID :: "32 word"
  mFormatFlags :: "32 word"
  mBytesPerPacket :: "32 word"
  mFramesPerPacket :: "32 word"
  mBytesPerFrame :: "32 word"
  mChannelsPerFrame :: "32 word"
  mBitsPerChannel :: "32 word"

datatype IOUserAudioStreamDirection = Output | Input

datatype IOUserAudioLevelControlType = Volume

datatype IOUserAudioBooleanControlType = Mute

record IOUserAudioLevelControlRange =
  rangeMinimum :: real
  rangeMaximum :: real
  rangeElement :: "32 word"

record IOUserAudioDevice =
  supportsPrewarming :: bool
  deviceUID :: string
  deviceName :: "string option"
  modelUID :: "string option"
  manufacturer :: "string option"
  canBeDefault :: bool
  canBeDefaultForSystemSounds :: bool
  sampleRate :: real
  zeroTimeStampPeriod :: "32 word"
  streamList :: "addr list"
  controlList :: "addr list"
  ioStarted :: bool

record IOUserAudioStream =
  direction :: IOUserAudioStreamDirection
  streamObjectID :: IOUserAudioObjectID
  streamName :: "string option"
  availableFormats :: "IOUserAudioStreamBasicDescription list"
  currentFormat :: "IOUserAudioStreamBasicDescription option"
  ioMemoryDescriptor :: "addr option"

record IOUserAudioLevelControl =
  levelSettable :: bool
  levelValue :: real
  levelRange :: IOUserAudioLevelControlRange
  levelType :: IOUserAudioLevelControlType
  levelObjectID :: IOUserAudioObjectID

record IOUserAudioBooleanControl =
  booleanSettable :: bool
  booleanValue :: bool
  booleanType :: IOUserAudioBooleanControlType
  booleanObjectID :: IOUserAudioObjectID

record IOBufferMemoryDescriptor =
  bufferOptions :: "64 word"
  bufferCapacity :: "64 word"
  bufferAlignment :: "64 word"

subsection \<open>The driver's state block and the driver instance\<close>

record MacaroniAudioDriver_IVars =
  audioDevice :: "addr option"
  inputStream :: "addr option"
  outputStream :: "addr option"
  volumeControl :: "addr option"
  muteControl :: "addr option"
  inputBuffer :: "addr option"
  outputBuffer :: "addr option"
  volumeLevel :: real
  isMuted :: bool
  isRunning :: bool

text \<open>The calls that leave the driver, with the objects they are made on.\<close>

datatype call =
    Call_super_init
  | Call_IONewZero
  | Call_IOSafeDeleteNULL
  | Call_super_free
  | Call_super_Start
  | Call_super_Stop
  | Call_release addr
  | Call_Device_Create
  | Call_Device_SetName addr
  | Call_Device_SetModelUID addr
  | Call_Device_SetManufacturer addr
  | Call_Device_SetCanBeDefault addr
  | Call_Device_SetCanBeDefaultForSystemSounds addr
  | Call_Device_SetSampleRate addr
  | Call_Device_SetZeroTimeStampPeriod addr
  | Call_Stream_Create IOUserAudioStreamDirection
  | Call_Stream_SetName addr
  | Call_Stream_SetAvailableStreamFormats addr
  | Call_Stream_SetCurrentStreamFormat addr
  | Call_LevelControl_Create
  | Call_BooleanControl_Create
  | Call_Device_AddStream addr addr
  | Call_Device_AddControl addr addr
  | Call_AddObject addr
  | Call_RemoveObject addr
  | Call_Buffer_Create "64 word"
  | Call_Stream_SetIOMemoryDescriptor addr addr
  | Call_Device_StartIO addr
  | Call_Device_StopIO addr
  | Call_RegisterService

text \<open>
  A driver instance: the pointer \<^verbatim>\<open>ivars\<close> (null before \<^verbatim>\<open>init\<close> and after \<^verbatim>\<open>free\<close>), the
  store of framework objects with its allocation counter, the objects the driver has
  added to itself with \<^verbatim>\<open>AddObject\<close>, whether the service is registered, and the calls
  made so far.
\<close>

record MacaroniAudioDriver =
  ivars :: "MacaroniAudioDriver_IVars option"
  devices :: "addr \<rightharpoonup> IOUserAudioDevice"
  streams :: "addr \<rightharpoonup> IOUserAudioStream"
  levelControls :: "addr \<rightharpoonup> IOUserAudioLevelControl"
  booleanControls :: "addr \<rightharpoonup> IOUserAudioBooleanControl"
  buffers :: "addr \<rightharpoonup> IOBufferMemoryDescriptor"
  nextAddr :: addr
  audioObjects :: "addr list"
  serviceRegistered :: bool
  calls :: "call list"

text \<open>
  The answers of the platform. A creation either yields an object or the null pointer;
  every other call yields a status.
\<close>

record host =
  super_init_ok :: bool
  ivars_alloc_ok :: bool
  super_Start_ret :: kern_return_t
  device_create_ok :: bool
  output_stream_create_ok :: bool
  input_stream_create_ok :: bool
  volume_control_create_ok :: bool
  mute_control_create_ok :: bool
  add_output_stream_ret :: kern_return_t
  add_input_stream_ret :: kern_return_t
  add_volume_control_ret :: kern_return_t
  add_mute_control_ret :: kern_return_t
  add_object_ret :: kern_return_t
  output_buffer_create_ret :: kern_return_t
  input_buffer_create_ret :: kern_return_t
  set_output_memory_ret :: kern_return_t
  set_input_memory_ret :: kern_return_t
  start_io_ret :: kern_return_t
  register_service_ret :: kern_return_t
  stop_io_ret :: kern_return_t
  remove_object_ret :: kern_return_t
  super_Stop_ret :: kern_return_t

section \<open>The framework calls\<close>

text \<open>
  The framework is not part of the driver's source. Its calls are modelled by their
  contract: a property setter stores its argument, a creation returns a new object at a
  fresh address or null, an attaching or registering call that answers with a status
  other than success has no effect. Every call records itself.

  What the model leaves out: the strings the driver builds with \<^verbatim>\<open>OSString::withCString\<close>
  are passed as values (the driver does not test them either); reference counts are
  not tracked, a release is only recorded as a call; and no framework call re-enters
  the driver. In particular \<^verbatim>\<open>StartIO\<close> on the device does not call \<^verbatim>\<open>StartDevice\<close>, which is
  a notification sent by the host.
\<close>

definition record_call :: "call \<Rightarrow> MacaroniAudioDriver \<Rightarrow> MacaroniAudioDriver" where
  "record_call c d = d\<lparr>calls := calls d @ [c]\<rparr>"

definition at_addr :: "addr \<Rightarrow> ('a \<Rightarrow> 'a) \<Rightarrow> (addr \<rightharpoonup> 'a) \<Rightarrow> (addr \<rightharpoonup> 'a)" where
  "at_addr a f m = m(a := map_option f (m a))"

definition on_device ::
  "addr \<Rightarrow> (IOUserAudioDevice \<Rightarrow> IOUserAudioDevice) \<Rightarrow> MacaroniAudioDriver \<Rightarrow> MacaroniAudioDriver" where
  "on_device a f d = d\<lparr>devices := at_addr a f (devices d)\<rparr>"

definition on_stream ::
  "addr \<Rightarrow> (IOUserAudioStream \<Rightarrow> IOUserAudioStream) \<Rightarrow> MacaroniAudioDriver \<Rightarrow> MacaroniAudioDriver" where
  "on_stream a f d = d\<lparr>streams := at_addr a f (streams d)\<rparr>"

definition IOUserAudioDevice_Create ::
  "bool \<Rightarrow> bool \<Rightarrow> string \<Rightarrow> MacaroniAudioDriver \<Rightarrow> addr option \<times> MacaroniAudioDriver" where
  "IOUserAudioDevice_Create ok prewarming uid d =
     (let d1 = record_call Call_Device_Create d; a = nextAddr d1 in
      if ok then
        (Some a,
         d1\<lparr>devices := (devices d1)(a \<mapsto>
               \<lparr>supportsPrewarming = prewarming, deviceUID = uid, deviceName = None,
                modelUID = None, manufacturer = None, canBeDefault = False,
                canBeDefaultForSystemSounds = False, sampleRate = 0,
                zeroTimeStampPeriod = 0, streamList = [], controlList = [],
                ioStarted = False\<rparr>),
             nextAddr := Suc a\<rparr>)
      else (None, d1))"

definition IOUserAudioStream_Create ::
  "bool \<Rightarrow> IOUserAudioStreamDirection \<Rightarrow> IOUserAudioObjectID \<Rightarrow> MacaroniAudioDriver
     \<Rightarrow> addr option \<times> MacaroniAudioDriver" where
  "IOUserAudioStream_Create ok dir oid d =
     (let d1 = record_call (Call_Stream_Create dir) d; a = nextAddr d1 in
      if ok then
        (Some a,
         d1\<lparr>streams := (streams d1)(a \<mapsto>
               \<lparr>direction = dir, streamObjectID = oid, streamName = None,
                availableFormats = [], currentFormat = None, ioMemoryDescriptor = None\<rparr>),
             nextAddr := Suc a\<rparr>)
      else (None, d1))"

definition IOUserAudioLevelControl_Create ::
  "bool \<Rightarrow> bool \<Rightarrow> real \<Rightarrow> IOUserAudioLevelControlRange \<Rightarrow> IOUserAudioLevelControlType
     \<Rightarrow> IOUserAudioObjectID \<Rightarrow> MacaroniAudioDriver \<Rightarrow> addr option \<times> MacaroniAudioDriver" where
  "IOUserAudioLevelControl_Create ok settable v rng ty oid d =
     (let d1 = record_call Call_LevelControl_Create d; a = nextAddr d1 in
      if ok then
        (Some a,
         d1\<lparr>levelControls := (levelControls d1)(a \<mapsto>
               \<lparr>levelSettable = settable, levelValue = v, levelRange = rng,
                levelType = ty, levelObjectID = oid\<rparr>),
             nextAddr := Suc a\<rparr>)
      else (None, d1))"

definition IOUserAudioBooleanControl_Create ::
  "bool \<Rightarrow> bool \<Rightarrow> bool \<Rightarrow> IOUserAudioBooleanControlType \<Rightarrow> IOUserAudioObjectID
     \<Rightarrow> MacaroniAudioDriver \<Rightarrow> addr option \<times> MacaroniAudioDriver" where
  "IOUserAudioBooleanControl_Create ok settable v ty oid d =
     (let d1 = record_call Call_BooleanControl_Create d; a = nextAddr d1 in
      if ok then
        (Some a,
         d1\<lparr>booleanControls := (booleanControls d1)(a \<mapsto>
               \<lparr>booleanSettable = settable, booleanValue = v, booleanType = ty,
                booleanObjectID = oid\<rparr>),
             nextAddr := Suc a\<rparr>)
      else (None, d1))"

definition IOBufferMemoryDescriptor_Create ::
  "kern_return_t \<Rightarrow> 64 word \<Rightarrow> 64 word \<Rightarrow> 64 word \<Rightarrow> MacaroniAudioDriver
     \<Rightarrow> (kern_return_t \<times> addr option) \<times> MacaroniAudioDriver" where
  "IOBufferMemoryDescriptor_Create ret options capacity alignment d =
     (let d1 = record_call (Call_Buffer_Create capacity) d; a = nextAddr d1 in
      if ret = kIOReturnSuccess then
        ((ret, Some a),
         d1\<lparr>buffers := (buffers d1)(a \<mapsto>
               \<lparr>bufferOptions = options, bufferCapacity = capacity,
                bufferAlignment = alignment\<rparr>),
             nextAddr := Suc a\<rparr>)
      else ((ret, None), d1))"

definition Device_AddStream ::
  "kern_return_t \<Rightarrow> addr \<Rightarrow> addr \<Rightarrow> MacaroniAudioDriver \<Rightarrow> kern_return_t \<times> MacaroniAudioDriver" where
  "Device_AddStream ret dev s d =
     (let d1 = record_call (Call_Device_AddStream dev s) d in
      (ret, if ret = kIOReturnSuccess
            then on_device dev (\<lambda>D. D\<lparr>streamList := streamList D @ [s]\<rparr>) d1 else d1))"

definition Device_AddControl ::
  "kern_return_t \<Rightarrow> addr \<Rightarrow> addr \<Rightarrow> MacaroniAudioDriver \<Rightarrow> kern_return_t \<times> MacaroniAudioDriver" where
  "Device_AddControl ret dev c d =
     (let d1 = record_call (Call_Device_AddControl dev c) d in
      (ret, if ret = kIOReturnSuccess
            then on_device dev (\<lambda>D. D\<lparr>controlList := controlList D @ [c]\<rparr>) d1 else d1))"

definition AddObject ::
  "kern_return_t \<Rightarrow> addr \<Rightarrow> MacaroniAudioDriver \<Rightarrow> kern_return_t \<times> MacaroniAudioDriver" where
  "AddObject ret a d =
     (let d1 = record_call (Call_AddObject a) d in
      (ret, if ret = kIOReturnSuccess then d1\<lparr>audioObjects := audioObjects d1 @ [a]\<rparr> else d1))"

definition RemoveObject ::
  "kern_return_t \<Rightarrow> addr \<Rightarrow> MacaroniAudioDriver \<Rightarrow> kern_return_t \<times> MacaroniAudioDriver" where
  "RemoveObject ret a d =
     (let d1 = record_call (Call_RemoveObject a) d in
      (ret, if ret = kIOReturnSuccess
            then d1\<lparr>audioObjects := removeAll a (audioObjects d1)\<rparr> else d1))"

definition Stream_SetIOMemoryDescriptor ::
  "kern_return_t \<Rightarrow> addr \<Rightarrow> addr \<Rightarrow> MacaroniAudioDriver \<Rightarrow> kern_return_t \<times> MacaroniAudioDriver" where
  "Stream_SetIOMemoryDescriptor ret s b d =
     (let d1 = record_call (Call_Stream_SetIOMemoryDescriptor s b) d in
      (ret, if ret = kIOReturnSuccess
            then on_stream s (\<lambda>S. S\<lparr>ioMemoryDescriptor := Some b\<rparr>) d1 else d1))"

definition Device_StartIO ::
  "kern_return_t \<Rightarrow> addr \<Rightarrow> MacaroniAudioDriver \<Rightarrow> kern_return_t \<times> MacaroniAudioDriver" where
  "Device_StartIO ret dev d =
     (let d1 = record_call (Call_Device_StartIO dev) d in
      (ret, if ret = kIOReturnSuccess then on_device dev (\<lambda>D. D\<lparr>ioStarted := True\<rparr>) d1 else d1))"

definition Device_StopIO ::
  "kern_return_t \<Rightarrow> addr \<Rightarrow> MacaroniAudioDriver \<Rightarrow> kern_return_t \<times> MacaroniAudioDriver" where
  "Device_StopIO ret dev d =
     (let d1 = record_call (Call_Device_StopIO dev) d in
      (ret, if ret = kIOReturnSuccess then on_device dev (\<lambda>D. D\<lparr>ioStarted := False\<rparr>) d1 else d1))"

definition RegisterService ::
  "kern_return_t \<Rightarrow> MacaroniAudioDriver \<Rightarrow> kern_return_t \<times> MacaroniAudioDriver" where
  "RegisterService ret d =
     (let d1 = record_call Call_RegisterService d in
      (ret, if ret = kIOReturnSuccess then d1\<lparr>serviceRegistered := True\<rparr> else d1))"

text \<open>
  The property setters. The driver discards what they return, so the model returns the
  new state only.
\<close>

definition Device_SetName :: "addr \<Rightarrow> string \<Rightarrow> MacaroniAudioDriver \<Rightarrow> MacaroniAudioDriver" where
  "Device_SetName a s d =
     on_device a (\<lambda>D. D\<lparr>deviceName := Some s\<rparr>) (record_call (Call_Device_SetName a) d)"

definition Device_SetModelUID :: "addr \<Rightarrow> string \<Rightarrow> MacaroniAudioDriver \<Rightarrow> MacaroniAudioDriver" where
  "Device_SetModelUID a s d =
     on_device a (\<lambda>D. D\<lparr>modelUID := Some s\<rparr>) (record_call (Call_Device_SetModelUID a) d)"

definition Device_SetManufacturer :: "addr \<Rightarrow> string \<Rightarrow> MacaroniAudioDriver \<Rightarrow> MacaroniAudioDriver" where
  "Device_SetManufacturer a s d =
     on_device a (\<lambda>D. D\<lparr>manufacturer := Some s\<rparr>) (record_call (Call_Device_SetManufacturer a) d)"

definition Device_SetCanBeDefault :: "addr \<Rightarrow> bool \<Rightarrow> MacaroniAudioDriver \<Rightarrow> MacaroniAudioDriver" where
  "Device_SetCanBeDefault a b d =
     on_device a (\<lambda>D. D\<lparr>canBeDefault := b\<rparr>) (record_call (Call_Device_SetCanBeDefault a) d)"

definition Device_SetCanBeDefaultForSystemSounds ::
  "addr \<Rightarrow> bool \<Rightarrow> MacaroniAudioDriver \<Rightarrow> MacaroniAudioDriver" where
  "Device_SetCanBeDefaultForSystemSounds a b d =
     on_device a (\<lambda>D. D\<lparr>canBeDefaultForSystemSounds := b\<rparr>)
       (record_call (Call_Device_SetCanBeDefaultForSystemSounds a) d)"

definition Device_SetSampleRate :: "addr \<Rightarrow> real \<Rightarrow> MacaroniAudioDriver \<Rightarrow> MacaroniAudioDriver" where
  "Device_SetSampleRate a r d =
     on_device a (\<lambda>D. D\<lparr>sampleRate := r\<rparr>) (record_call (Call_Device_SetSampleRate a) d)"

definition Device_SetZeroTimeStampPeriod ::
  "addr \<Rightarrow> 32 word \<Rightarrow> MacaroniAudioDriver \<Rightarrow> MacaroniAudioDriver" where
  "Device_SetZeroTimeStampPeriod a n d =
     on_device a (\<lambda>D. D\<lparr>zeroTimeStampPeriod := n\<rparr>)
       (record_call (Call_Device_SetZeroTimeStampPeriod a) d)"

definition Stream_SetName :: "addr \<Rightarrow> string \<Rightarrow> MacaroniAudioDriver \<Rightarrow> MacaroniAudioDriver" where
  "Stream_SetName a s d =
     on_stream a (\<lambda>S. S\<lparr>streamName := Some s\<rparr>) (record_call (Call_Stream_SetName a) d)"

definition Stream_SetAvailableStreamFormats ::
  "addr \<Rightarrow> IOUserAudioStreamBasicDescription list \<Rightarrow> MacaroniAudioDriver \<Rightarrow> MacaroniAudioDriver" where
  "Stream_SetAvailableStreamFormats a fs d =
     on_stream a (\<lambda>S. S\<lparr>availableFormats := fs\<rparr>)
       (record_call (Call_Stream_SetAvailableStreamFormats a) d)"

definition Stream_SetCurrentStreamFormat ::
  "addr \<Rightarrow> IOUserAudioStreamBasicDescription \<Rightarrow> MacaroniAudioDriver \<Rightarrow> MacaroniAudioDriver" where
  "Stream_SetCurrentStreamFormat a f d =
     on_stream a (\<lambda>S. S\<lparr>currentFormat := Some f\<rparr>)
       (record_call (Call_Stream_SetCurrentStreamFormat a) d)"

definition super_Start :: "kern_return_t \<Rightarrow> MacaroniAudioDriver \<Rightarrow> kern_return_t \<times> MacaroniAudioDriver" where
  "super_Start ret d = (ret, record_call Call_super_Start d)"

definition super_Stop :: "kern_return_t \<Rightarrow> MacaroniAudioDriver \<Rightarrow> kern_return_t \<times> MacaroniAudioDriver" where
  "super_Stop ret d = (ret, record_call Call_super_Stop d)"

section \<open>Access through \<^verbatim>\<open>ivars\<close>\<close>

text \<open>
  Every method but \<^verbatim>\<open>free\<close> dereferences \<^verbatim>\<open>ivars\<close> without a test, and calls methods on
  the pointers it holds. Dereferencing a null pointer has no defined result: the model
  answers \<open>None\<close>. A method of the driver therefore returns an \<open>option\<close>, and \<open>Some\<close>
  means that it ran to its \<^verbatim>\<open>return\<close>.
\<close>

definition ivar :: "(MacaroniAudioDriver_IVars \<Rightarrow> 'a) \<Rightarrow> MacaroniAudioDriver \<Rightarrow> 'a option" where
  "ivar f d = map_option f (ivars d)"

definition ivar_obj ::
  "(MacaroniAudioDriver_IVars \<Rightarrow> addr option) \<Rightarrow> MacaroniAudioDriver \<Rightarrow> addr option" where
  "ivar_obj f d = Option.bind (ivars d) f"

text \<open>
  A shared pointer that is overwritten or reset gives up its reference to the object it
  held, if it held one.
\<close>

definition release :: "addr option \<Rightarrow> MacaroniAudioDriver \<Rightarrow> MacaroniAudioDriver" where
  "release p d = (case p of None \<Rightarrow> d | Some a \<Rightarrow> record_call (Call_release a) d)"

definition assign ::
  "(MacaroniAudioDriver_IVars \<Rightarrow> addr option)
     \<Rightarrow> ((addr option \<Rightarrow> addr option) \<Rightarrow> MacaroniAudioDriver_IVars \<Rightarrow> MacaroniAudioDriver_IVars)
     \<Rightarrow> addr option \<Rightarrow> MacaroniAudioDriver \<Rightarrow> MacaroniAudioDriver option" where
  "assign field upd p d =
     (case ivars d of
        None \<Rightarrow> None
      | Some iv \<Rightarrow> Some ((release (field iv) d)\<lparr>ivars := Some (upd (\<lambda>_. p) iv)\<rparr>))"

definition set_ivars ::
  "(MacaroniAudioDriver_IVars \<Rightarrow> MacaroniAudioDriver_IVars) \<Rightarrow> MacaroniAudioDriver
     \<Rightarrow> MacaroniAudioDriver option" where
  "set_ivars f d =
     (case ivars d of None \<Rightarrow> None | Some iv \<Rightarrow> Some (d\<lparr>ivars := Some (f iv)\<rparr>))"

section \<open>The driver's methods\<close>

subsection \<open>\<^verbatim>\<open>init\<close> and \<^verbatim>\<open>free\<close>\<close>

definition zero_IVars :: MacaroniAudioDriver_IVars where
  "zero_IVars =
     \<lparr>audioDevice = None, inputStream = None, outputStream = None, volumeControl = None,
      muteControl = None, inputBuffer = None, outputBuffer = None, volumeLevel = 0,
      isMuted = False, isRunning = False\<rparr>"

definition init :: "host \<Rightarrow> MacaroniAudioDriver \<Rightarrow> bool \<times> MacaroniAudioDriver" where
  "init h d0 =
     (let d = record_call Call_super_init d0 in
      if \<not> super_init_ok h then (False, d)
      else
        let d = record_call Call_IONewZero d;
            d = d\<lparr>ivars := (if ivars_alloc_ok h then Some zero_IVars else None)\<rparr>
        in case ivars d of
             None \<Rightarrow> (False, d)
           | Some iv \<Rightarrow>
               (True, d\<lparr>ivars := Some (iv\<lparr>volumeLevel := 1, isMuted := False,
                                          isRunning := False\<rparr>)\<rparr>))"

text \<open>\<^verbatim>\<open>free\<close> is the one method that tests \<^verbatim>\<open>ivars\<close>; it cannot fail.\<close>

definition reset ::
  "(MacaroniAudioDriver_IVars \<Rightarrow> addr option)
     \<Rightarrow> ((addr option \<Rightarrow> addr option) \<Rightarrow> MacaroniAudioDriver_IVars \<Rightarrow> MacaroniAudioDriver_IVars)
     \<Rightarrow> MacaroniAudioDriver \<Rightarrow> MacaroniAudioDriver" where
  "reset field upd d = (case assign field upd None d of None \<Rightarrow> d | Some d' \<Rightarrow> d')"

definition free :: "MacaroniAudioDriver \<Rightarrow> MacaroniAudioDriver" where
  "free d0 =
     record_call Call_super_free
       (case ivars d0 of
          None \<Rightarrow> d0
        | Some _ \<Rightarrow>
            (let d = reset audioDevice audioDevice_update d0;
                 d = reset inputStream inputStream_update d;
                 d = reset outputStream outputStream_update d;
                 d = reset volumeControl volumeControl_update d;
                 d = reset muteControl muteControl_update d;
                 d = reset inputBuffer inputBuffer_update d;
                 d = reset outputBuffer outputBuffer_update d;
                 d = record_call Call_IOSafeDeleteNULL d
             in d\<lparr>ivars := None\<rparr>))"

subsection \<open>The notification handlers\<close>

text \<open>
  The handlers ignore their arguments. The types of the flags, of the change
  information and of the stream and format arguments are declared by the framework;
  the model leaves them as type parameters.
\<close>

definition StartDevice ::
  "IOUserAudioObjectID \<Rightarrow> 'flags \<Rightarrow> MacaroniAudioDriver \<Rightarrow> (kern_return_t \<times> MacaroniAudioDriver) option" where
  "StartDevice in_object_id in_flags d =
     do { d' \<leftarrow> set_ivars (\<lambda>iv. iv\<lparr>isRunning := True\<rparr>) d;
          Some (kIOReturnSuccess, d') }"

definition StopDevice ::
  "IOUserAudioObjectID \<Rightarrow> 'flags \<Rightarrow> MacaroniAudioDriver \<Rightarrow> (kern_return_t \<times> MacaroniAudioDriver) option" where
  "StopDevice in_object_id in_flags d =
     do { d' \<leftarrow> set_ivars (\<lambda>iv. iv\<lparr>isRunning := False\<rparr>) d;
          Some (kIOReturnSuccess, d') }"

definition PerformDeviceConfigurationChange ::
  "IOUserAudioObjectID \<Rightarrow> 64 word \<Rightarrow> 'info \<Rightarrow> MacaroniAudioDriver \<Rightarrow> (kern_return_t \<times> MacaroniAudioDriver) option" where
  "PerformDeviceConfigurationChange in_object_id in_change_action in_change_info d =
     Some (kIOReturnSuccess, d)"

definition AbortDeviceConfigurationChange ::
  "IOUserAudioObjectID \<Rightarrow> 64 word \<Rightarrow> 'info \<Rightarrow> MacaroniAudioDriver \<Rightarrow> (kern_return_t \<times> MacaroniAudioDriver) option" where
  "AbortDeviceConfigurationChange in_object_id in_change_action in_change_info d =
     Some (kIOReturnSuccess, d)"

definition HandleChangedStreamFormat ::
  "IOUserAudioObjectID \<Rightarrow> 'stream \<Rightarrow> 'format \<Rightarrow> 'format \<Rightarrow> MacaroniAudioDriver
     \<Rightarrow> (kern_return_t \<times> MacaroniAudioDriver) option" where
  "HandleChangedStreamFormat in_object_id in_stream in_old_format in_new_format d =
     Some (kIOReturnSuccess, d)"

subsection \<open>\<^verbatim>\<open>Start\<close>\<close>

text \<open>
  \<^verbatim>\<open>ret = f(...); if (ret != kIOReturnSuccess) return ret;\<close> followed by the rest of
  the method: the rest runs only on success, and a failing status is returned with the
  state as the call left it.
\<close>

definition checked ::
  "kern_return_t \<times> MacaroniAudioDriver
     \<Rightarrow> (MacaroniAudioDriver \<Rightarrow> (kern_return_t \<times> MacaroniAudioDriver) option)
     \<Rightarrow> (kern_return_t \<times> MacaroniAudioDriver) option" where
  "checked r rest = (if fst r \<noteq> kIOReturnSuccess then Some r else rest (snd r))"

definition stage ::
  "(kern_return_t \<times> MacaroniAudioDriver) option
     \<Rightarrow> (MacaroniAudioDriver \<Rightarrow> (kern_return_t \<times> MacaroniAudioDriver) option)
     \<Rightarrow> (kern_return_t \<times> MacaroniAudioDriver) option" where
  "stage r rest = (case r of None \<Rightarrow> None | Some x \<Rightarrow> checked x rest)"

text \<open>The stream format built in \<^verbatim>\<open>Start\<close> (the local \<^verbatim>\<open>format\<close>).\<close>

definition Start_format :: IOUserAudioStreamBasicDescription where
  "Start_format =
     \<lparr>mSampleRate = real (unat kSampleRate),
      mFormatID = kIOUserAudioFormatLinearPCM,
      mFormatFlags = or kIOUserAudioFormatFlagIsFloat kIOUserAudioFormatFlagIsPacked,
      mBytesPerPacket = kBytesPerFrame,
      mFramesPerPacket = 1,
      mBytesPerFrame = kBytesPerFrame,
      mChannelsPerFrame = kNumChannels,
      mBitsPerChannel = kBitsPerChannel\<rparr>"

text \<open>Lines 78 to 96: create the audio device, set its properties.\<close>

definition create_audio_device ::
  "host \<Rightarrow> MacaroniAudioDriver \<Rightarrow> (kern_return_t \<times> MacaroniAudioDriver) option" where
  "create_audio_device h d0 =
     do { let (p, d) = IOUserAudioDevice_Create (device_create_ok h) False
                         ''com.macaroni.audio.device'' d0;
          d \<leftarrow> assign audioDevice audioDevice_update p d;
          q \<leftarrow> ivar audioDevice d;
          (case q of
             None \<Rightarrow> Some (kIOReturnNoMemory, d)
           | Some dev \<Rightarrow>
               (let d = Device_SetName dev ''Macaroni Audio'' d;
                    d = Device_SetModelUID dev ''com.macaroni.audio.model'' d;
                    d = Device_SetManufacturer dev ''Macaroni'' d;
                    d = Device_SetCanBeDefault dev True d;
                    d = Device_SetCanBeDefaultForSystemSounds dev True d;
                    d = Device_SetSampleRate dev (real (unat kSampleRate)) d;
                    d = Device_SetZeroTimeStampPeriod dev kBufferFrames d
                in Some (kIOReturnSuccess, d))) }"

text \<open>Lines 109 to 121: create the output stream, name it, set its formats.\<close>

definition create_output_stream ::
  "host \<Rightarrow> MacaroniAudioDriver \<Rightarrow> (kern_return_t \<times> MacaroniAudioDriver) option" where
  "create_output_stream h d0 =
     do { let (p, d) = IOUserAudioStream_Create (output_stream_create_ok h) Output
                         kOutputStreamObjectID d0;
          d \<leftarrow> assign outputStream outputStream_update p d;
          q \<leftarrow> ivar outputStream d;
          (case q of
             None \<Rightarrow> Some (kIOReturnNoMemory, d)
           | Some s \<Rightarrow>
               (let d = Stream_SetName s ''Macaroni Output'' d;
                    d = Stream_SetAvailableStreamFormats s [Start_format] d;
                    d = Stream_SetCurrentStreamFormat s Start_format d
                in Some (kIOReturnSuccess, d))) }"

text \<open>Lines 123 to 135: create the input stream, name it, set its formats.\<close>

definition create_input_stream ::
  "host \<Rightarrow> MacaroniAudioDriver \<Rightarrow> (kern_return_t \<times> MacaroniAudioDriver) option" where
  "create_input_stream h d0 =
     do { let (p, d) = IOUserAudioStream_Create (input_stream_create_ok h) Input
                         kInputStreamObjectID d0;
          d \<leftarrow> assign inputStream inputStream_update p d;
          q \<leftarrow> ivar inputStream d;
          (case q of
             None \<Rightarrow> Some (kIOReturnNoMemory, d)
           | Some s \<Rightarrow>
               (let d = Stream_SetName s ''Macaroni Input'' d;
                    d = Stream_SetAvailableStreamFormats s [Start_format] d;
                    d = Stream_SetCurrentStreamFormat s Start_format d
                in Some (kIOReturnSuccess, d))) }"

text \<open>Lines 137 to 148: create the volume control.\<close>

definition volumeRange :: IOUserAudioLevelControlRange where
  "volumeRange =
     \<lparr>rangeMinimum = - 96, rangeMaximum = 0,
      rangeElement = kIOUserAudioObjectPropertyElementMain\<rparr>"

definition create_volume_control ::
  "host \<Rightarrow> MacaroniAudioDriver \<Rightarrow> (kern_return_t \<times> MacaroniAudioDriver) option" where
  "create_volume_control h d0 =
     do { let (p, d) = IOUserAudioLevelControl_Create (volume_control_create_ok h) True 0
                         volumeRange Volume kVolumeControlObjectID d0;
          d \<leftarrow> assign volumeControl volumeControl_update p d;
          q \<leftarrow> ivar volumeControl d;
          (case q of
             None \<Rightarrow> Some (kIOReturnNoMemory, d)
           | Some _ \<Rightarrow> Some (kIOReturnSuccess, d)) }"

text \<open>Lines 150 to 159: create the mute control.\<close>

definition create_mute_control ::
  "host \<Rightarrow> MacaroniAudioDriver \<Rightarrow> (kern_return_t \<times> MacaroniAudioDriver) option" where
  "create_mute_control h d0 =
     do { let (p, d) = IOUserAudioBooleanControl_Create (mute_control_create_ok h) True False
                         Mute kMuteControlObjectID d0;
          d \<leftarrow> assign muteControl muteControl_update p d;
          q \<leftarrow> ivar muteControl d;
          (case q of
             None \<Rightarrow> Some (kIOReturnNoMemory, d)
           | Some _ \<Rightarrow> Some (kIOReturnSuccess, d)) }"

text \<open>Lines 161 to 180: add the streams and the controls to the device.\<close>

definition add_output_stream ::
  "host \<Rightarrow> MacaroniAudioDriver \<Rightarrow> (kern_return_t \<times> MacaroniAudioDriver) option" where
  "add_output_stream h d =
     do { dev \<leftarrow> ivar_obj audioDevice d;
          s \<leftarrow> ivar_obj outputStream d;
          Some (Device_AddStream (add_output_stream_ret h) dev s d) }"

definition add_input_stream ::
  "host \<Rightarrow> MacaroniAudioDriver \<Rightarrow> (kern_return_t \<times> MacaroniAudioDriver) option" where
  "add_input_stream h d =
     do { dev \<leftarrow> ivar_obj audioDevice d;
          s \<leftarrow> ivar_obj inputStream d;
          Some (Device_AddStream (add_input_stream_ret h) dev s d) }"

definition add_volume_control ::
  "host \<Rightarrow> MacaroniAudioDriver \<Rightarrow> (kern_return_t \<times> MacaroniAudioDriver) option" where
  "add_volume_control h d =
     do { dev \<leftarrow> ivar_obj audioDevice d;
          c \<leftarrow> ivar_obj volumeControl d;
          Some (Device_AddControl (add_volume_control_ret h) dev c d) }"

definition add_mute_control ::
  "host \<Rightarrow> MacaroniAudioDriver \<Rightarrow> (kern_return_t \<times> MacaroniAudioDriver) option" where
  "add_mute_control h d =
     do { dev \<leftarrow> ivar_obj audioDevice d;
          c \<leftarrow> ivar_obj muteControl d;
          Some (Device_AddControl (add_mute_control_ret h) dev c d) }"

text \<open>Lines 182 to 186: add the device to the driver.\<close>

definition add_device_to_driver ::
  "host \<Rightarrow> MacaroniAudioDriver \<Rightarrow> (kern_return_t \<times> MacaroniAudioDriver) option" where
  "add_device_to_driver h d =
     do { dev \<leftarrow> ivar_obj audioDevice d;
          Some (AddObject (add_object_ret h) dev d) }"

text \<open>
  Lines 188 to 204: create the two buffers. \<^verbatim>\<open>attach()\<close> empties the shared pointer and
  hands its address to the creation, which fills it on success.
\<close>

definition bufferSize :: "32 word" where
  "bufferSize = kBufferFrames * kBytesPerFrame"

definition create_output_buffer ::
  "host \<Rightarrow> MacaroniAudioDriver \<Rightarrow> (kern_return_t \<times> MacaroniAudioDriver) option" where
  "create_output_buffer h d0 =
     do { d \<leftarrow> assign outputBuffer outputBuffer_update None d0;
          let ((ret, p), d) = IOBufferMemoryDescriptor_Create (output_buffer_create_ret h)
                                kIOMemoryDirectionInOut (ucast bufferSize) 0 d;
          d \<leftarrow> assign outputBuffer outputBuffer_update p d;
          Some (ret, d) }"

definition create_input_buffer ::
  "host \<Rightarrow> MacaroniAudioDriver \<Rightarrow> (kern_return_t \<times> MacaroniAudioDriver) option" where
  "create_input_buffer h d0 =
     do { d \<leftarrow> assign inputBuffer inputBuffer_update None d0;
          let ((ret, p), d) = IOBufferMemoryDescriptor_Create (input_buffer_create_ret h)
                                kIOMemoryDirectionInOut (ucast bufferSize) 0 d;
          d \<leftarrow> assign inputBuffer inputBuffer_update p d;
          Some (ret, d) }"

text \<open>Lines 206 to 215: set the buffers on the streams.\<close>

definition set_output_buffer ::
  "host \<Rightarrow> MacaroniAudioDriver \<Rightarrow> (kern_return_t \<times> MacaroniAudioDriver) option" where
  "set_output_buffer h d =
     do { s \<leftarrow> ivar_obj outputStream d;
          b \<leftarrow> ivar_obj outputBuffer d;
          Some (Stream_SetIOMemoryDescriptor (set_output_memory_ret h) s b d) }"

definition set_input_buffer ::
  "host \<Rightarrow> MacaroniAudioDriver \<Rightarrow> (kern_return_t \<times> MacaroniAudioDriver) option" where
  "set_input_buffer h d =
     do { s \<leftarrow> ivar_obj inputStream d;
          b \<leftarrow> ivar_obj inputBuffer d;
          Some (Stream_SetIOMemoryDescriptor (set_input_memory_ret h) s b d) }"

text \<open>Lines 217 to 221: start I/O on the device.\<close>

definition activate_device ::
  "host \<Rightarrow> MacaroniAudioDriver \<Rightarrow> (kern_return_t \<times> MacaroniAudioDriver) option" where
  "activate_device h d =
     do { dev \<leftarrow> ivar_obj audioDevice d;
          Some (Device_StartIO (start_io_ret h) dev d) }"

text \<open>
  The whole method. The last statement, \<^verbatim>\<open>RegisterService()\<close>, is not tested: whatever it
  answers, \<^verbatim>\<open>Start\<close> returns success.
\<close>

definition Start ::
  "host \<Rightarrow> MacaroniAudioDriver \<Rightarrow> (kern_return_t \<times> MacaroniAudioDriver) option" where
  "Start h d0 =
     checked (super_Start (super_Start_ret h) d0) (\<lambda>d.
     stage (create_audio_device h d) (\<lambda>d.
     stage (create_output_stream h d) (\<lambda>d.
     stage (create_input_stream h d) (\<lambda>d.
     stage (create_volume_control h d) (\<lambda>d.
     stage (create_mute_control h d) (\<lambda>d.
     stage (add_output_stream h d) (\<lambda>d.
     stage (add_input_stream h d) (\<lambda>d.
     stage (add_volume_control h d) (\<lambda>d.
     stage (add_mute_control h d) (\<lambda>d.
     stage (add_device_to_driver h d) (\<lambda>d.
     stage (create_output_buffer h d) (\<lambda>d.
     stage (create_input_buffer h d) (\<lambda>d.
     stage (set_output_buffer h d) (\<lambda>d.
     stage (set_input_buffer h d) (\<lambda>d.
     stage (activate_device h d) (\<lambda>d.
       Some (kIOReturnSuccess, snd (RegisterService (register_service_ret h) d))
     ))))))))))))))))"

subsection \<open>\<^verbatim>\<open>Stop\<close>\<close>

definition Stop ::
  "host \<Rightarrow> MacaroniAudioDriver \<Rightarrow> (kern_return_t \<times> MacaroniAudioDriver) option" where
  "Stop h d0 =
     do { p \<leftarrow> ivar audioDevice d0;
          let d = (case p of
                     None \<Rightarrow> d0
                   | Some dev \<Rightarrow>
                       (let d = snd (Device_StopIO (stop_io_ret h) dev d0);
                            d = snd (RemoveObject (remove_object_ret h) dev d)
                        in d));
          Some (super_Stop (super_Stop_ret h) d) }"

section \<open>Reference points for the properties\<close>

text \<open>A platform on which every call succeeds, and a driver instance before \<^verbatim>\<open>init\<close>.\<close>

definition host_ok :: host where
  "host_ok =
     \<lparr>super_init_ok = True, ivars_alloc_ok = True, super_Start_ret = kIOReturnSuccess,
      device_create_ok = True, output_stream_create_ok = True,
      input_stream_create_ok = True, volume_control_create_ok = True,
      mute_control_create_ok = True, add_output_stream_ret = kIOReturnSuccess,
      add_input_stream_ret = kIOReturnSuccess, add_volume_control_ret = kIOReturnSuccess,
      add_mute_control_ret = kIOReturnSuccess, add_object_ret = kIOReturnSuccess,
      output_buffer_create_ret = kIOReturnSuccess,
      input_buffer_create_ret = kIOReturnSuccess,
      set_output_memory_ret = kIOReturnSuccess, set_input_memory_ret = kIOReturnSuccess,
      start_io_ret = kIOReturnSuccess, register_service_ret = kIOReturnSuccess,
      stop_io_ret = kIOReturnSuccess, remove_object_ret = kIOReturnSuccess,
      super_Stop_ret = kIOReturnSuccess\<rparr>"

definition new_driver :: MacaroniAudioDriver where
  "new_driver =
     \<lparr>ivars = None, devices = Map.empty, streams = Map.empty, levelControls = Map.empty,
      booleanControls = Map.empty, buffers = Map.empty, nextAddr = 1, audioObjects = [],
      serviceRegistered = False, calls = []\<rparr>"

definition initialized :: MacaroniAudioDriver where
  "initialized = snd (init host_ok new_driver)"

definition init_IVars :: MacaroniAudioDriver_IVars where
  "init_IVars = zero_IVars\<lparr>volumeLevel := 1, isMuted := False, isRunning := False\<rparr>"

definition started :: MacaroniAudioDriver where
  "started = (case Start host_ok initialized of None \<Rightarrow> initialized | Some (r, d) \<Rightarrow> d)"

text \<open>The calls made between two states of one run.\<close>

definition calls_since :: "MacaroniAudioDriver \<Rightarrow> MacaroniAudioDriver \<Rightarrow> call list" where
  "calls_since d d' = drop (length (calls d)) (calls d')"

text \<open>The object a shared pointer holds, if it holds one.\<close>

definition held :: "addr option \<Rightarrow> addr list" where
  "held p = (case p of None \<Rightarrow> [] | Some a \<Rightarrow> [a])"

text \<open>
  The objects the state block owns, in the order in which \<^verbatim>\<open>Start\<close> constructs them, and
  in the order in which the structure declares their fields.
\<close>

definition construction_order :: "MacaroniAudioDriver_IVars \<Rightarrow> addr list" where
  "construction_order iv =
     held (audioDevice iv) @ held (outputStream iv) @ held (inputStream iv) @
     held (volumeControl iv) @ held (muteControl iv) @ held (outputBuffer iv) @
     held (inputBuffer iv)"

definition declaration_order :: "MacaroniAudioDriver_IVars \<Rightarrow> addr list" where
  "declaration_order iv =
     held (audioDevice iv) @ held (inputStream iv) @ held (outputStream iv) @
     held (volumeControl iv) @ held (muteControl iv) @ held (inputBuffer iv) @
     held (outputBuffer iv)"

definition owned :: "MacaroniAudioDriver \<Rightarrow> addr list" where
  "owned d = (case ivars d of None \<Rightarrow> [] | Some iv \<Rightarrow> construction_order iv)"

text \<open>The calls that undo construction: giving up a reference, stopping, withdrawing.\<close>

fun is_teardown :: "call \<Rightarrow> bool" where
  "is_teardown (Call_release a) = True"
| "is_teardown (Call_Device_StopIO a) = True"
| "is_teardown (Call_RemoveObject a) = True"
| "is_teardown c = False"

text \<open>The device operations of \<^verbatim>\<open>Stop\<close>, for the device the state block points to.\<close>

definition Stop_device_calls :: "MacaroniAudioDriver_IVars \<Rightarrow> call list" where
  "Stop_device_calls iv =
     (case audioDevice iv of None \<Rightarrow> [] | Some dev \<Rightarrow> [Call_Device_StopIO dev, Call_RemoveObject dev])"

text \<open>The status the driver derives from a creation: a null pointer reads as no memory.\<close>

definition created :: "bool \<Rightarrow> kern_return_t" where
  "created ok = (if ok then kIOReturnSuccess else kIOReturnNoMemory)"

text \<open>
  The order of \<^verbatim>\<open>Start\<close> as a script: every call it makes, in source order, with the
  construction step it belongs to (0 is the call of the base class, which no step
  names; step 2, building the format, makes no call) and the status the driver tests
  after it (\<open>None\<close> when the driver does not look at the result). \<open>n\<close> is the next free
  address on entry.
\<close>

definition Start_script :: "host \<Rightarrow> addr \<Rightarrow> (nat \<times> call \<times> kern_return_t option) list" where
  "Start_script h n =
     (let dev = n; out = Suc dev; inp = Suc out; vol = Suc inp; mute = Suc vol;
          obuf = Suc mute; ibuf = Suc obuf
      in [(0, Call_super_Start, Some (super_Start_ret h)),
          (1, Call_Device_Create, Some (created (device_create_ok h))),
          (1, Call_Device_SetName dev, None),
          (1, Call_Device_SetModelUID dev, None),
          (1, Call_Device_SetManufacturer dev, None),
          (1, Call_Device_SetCanBeDefault dev, None),
          (1, Call_Device_SetCanBeDefaultForSystemSounds dev, None),
          (1, Call_Device_SetSampleRate dev, None),
          (1, Call_Device_SetZeroTimeStampPeriod dev, None),
          (3, Call_Stream_Create Output, Some (created (output_stream_create_ok h))),
          (3, Call_Stream_SetName out, None),
          (3, Call_Stream_SetAvailableStreamFormats out, None),
          (3, Call_Stream_SetCurrentStreamFormat out, None),
          (4, Call_Stream_Create Input, Some (created (input_stream_create_ok h))),
          (4, Call_Stream_SetName inp, None),
          (4, Call_Stream_SetAvailableStreamFormats inp, None),
          (4, Call_Stream_SetCurrentStreamFormat inp, None),
          (5, Call_LevelControl_Create, Some (created (volume_control_create_ok h))),
          (5, Call_BooleanControl_Create, Some (created (mute_control_create_ok h))),
          (6, Call_Device_AddStream dev out, Some (add_output_stream_ret h)),
          (6, Call_Device_AddStream dev inp, Some (add_input_stream_ret h)),
          (6, Call_Device_AddControl dev vol, Some (add_volume_control_ret h)),
          (6, Call_Device_AddControl dev mute, Some (add_mute_control_ret h)),
          (7, Call_AddObject dev, Some (add_object_ret h)),
          (8, Call_Buffer_Create (ucast bufferSize), Some (output_buffer_create_ret h)),
          (8, Call_Buffer_Create (ucast bufferSize), Some (input_buffer_create_ret h)),
          (9, Call_Stream_SetIOMemoryDescriptor out obuf, Some (set_output_memory_ret h)),
          (9, Call_Stream_SetIOMemoryDescriptor inp ibuf, Some (set_input_memory_ret h)),
          (10, Call_Device_StartIO dev, Some (start_io_ret h)),
          (11, Call_RegisterService, None)])"

text \<open>
  Running a script: the calls are made in order; after a tested call that did not
  succeed, its status is returned at once and nothing further is called.
\<close>

fun run_script :: "(nat \<times> call \<times> kern_return_t option) list \<Rightarrow> kern_return_t \<times> call list" where
  "run_script [] = (kIOReturnSuccess, [])"
| "run_script ((k, c, None) # rest) = (case run_script rest of (r, cs) \<Rightarrow> (r, c # cs))"
| "run_script ((k, c, Some s) # rest) =
     (if s \<noteq> kIOReturnSuccess then (s, [c])
      else (case run_script rest of (r, cs) \<Rightarrow> (r, c # cs)))"

definition all_ok :: "host \<Rightarrow> bool" where
  "all_ok h \<longleftrightarrow>
     super_Start_ret h = kIOReturnSuccess \<and> device_create_ok h \<and>
     output_stream_create_ok h \<and> input_stream_create_ok h \<and>
     volume_control_create_ok h \<and> mute_control_create_ok h \<and>
     add_output_stream_ret h = kIOReturnSuccess \<and>
     add_input_stream_ret h = kIOReturnSuccess \<and>
     add_volume_control_ret h = kIOReturnSuccess \<and>
     add_mute_control_ret h = kIOReturnSuccess \<and>
     add_object_ret h = kIOReturnSuccess \<and>
     output_buffer_create_ret h = kIOReturnSuccess \<and>
     input_buffer_create_ret h = kIOReturnSuccess \<and>
     set_output_memory_ret h = kIOReturnSuccess \<and>
     set_input_memory_ret h = kIOReturnSuccess \<and>
     start_io_ret h = kIOReturnSuccess"

text \<open>A state block that holds no object yet, as \<^verbatim>\<open>init\<close> leaves it.\<close>

definition fresh_IVars :: "MacaroniAudioDriver_IVars \<Rightarrow> bool" where
  "fresh_IVars iv \<longleftrightarrow>
     audioDevice iv = None \<and> inputStream iv = None \<and> outputStream iv = None \<and>
     volumeControl iv = None \<and> muteControl iv = None \<and> inputBuffer iv = None \<and>
     outputBuffer iv = None"

text \<open>The streams attached to the driver's device, and the format invariant.\<close>

definition attached_streams :: "MacaroniAudioDriver \<Rightarrow> addr list" where
  "attached_streams d =
     (case ivar_obj audioDevice d of
        None \<Rightarrow> []
      | Some dev \<Rightarrow> (case devices d dev of None \<Rightarrow> [] | Some D \<Rightarrow> streamList D))"

definition stream_carries ::
  "MacaroniAudioDriver \<Rightarrow> IOUserAudioStreamBasicDescription \<Rightarrow> addr \<Rightarrow> bool" where
  "stream_carries d f s =
     (case streams d s of
        None \<Rightarrow> False
      | Some S \<Rightarrow> currentFormat S = Some f \<and> availableFormats S = [f])"

definition formats_consistent :: "MacaroniAudioDriver \<Rightarrow> bool" where
  "formats_consistent d = list_all (stream_carries d Start_format) (attached_streams d)"

definition format_invariant :: "IOUserAudioStreamBasicDescription \<Rightarrow> bool" where
  "format_invariant f \<longleftrightarrow>
     mBytesPerFrame f = mChannelsPerFrame f * (mBitsPerChannel f div 8)"

text \<open>Whether the output stream of the state block has a buffer set on it.\<close>

definition output_stream_has_buffer :: "MacaroniAudioDriver \<Rightarrow> bool" where
  "output_stream_has_buffer d =
     (case ivar_obj outputStream d of
        None \<Rightarrow> False
      | Some s \<Rightarrow> (case streams d s of None \<Rightarrow> False | Some S \<Rightarrow> ioMemoryDescriptor S \<noteq> None))"

section \<open>Facts about the framework calls\<close>

lemma record_call_fields [simp]:
  "ivars (record_call c d) = ivars d"
  "devices (record_call c d) = devices d"
  "streams (record_call c d) = streams d"
  "levelControls (record_call c d) = levelControls d"
  "booleanControls (record_call c d) = booleanControls d"
  "buffers (record_call c d) = buffers d"
  "nextAddr (record_call c d) = nextAddr d"
  "audioObjects (record_call c d) = audioObjects d"
  "serviceRegistered (record_call c d) = serviceRegistered d"
  "calls (record_call c d) = calls d @ [c]"
  by (simp_all add: record_call_def)

lemma release_fields [simp]:
  "ivars (release p d) = ivars d"
  "devices (release p d) = devices d"
  "streams (release p d) = streams d"
  "levelControls (release p d) = levelControls d"
  "booleanControls (release p d) = booleanControls d"
  "buffers (release p d) = buffers d"
  "nextAddr (release p d) = nextAddr d"
  "audioObjects (release p d) = audioObjects d"
  "serviceRegistered (release p d) = serviceRegistered d"
  "calls (release p d) = calls d @ map Call_release (held p)"
  by (simp_all add: release_def held_def split: option.split)

lemma release_None [simp]: "release None d = d"
  by (simp add: release_def)

lemma at_addr_same [simp]: "at_addr a f (m(a \<mapsto> x)) = m(a \<mapsto> f x)"
  by (simp add: at_addr_def)

lemma at_addr_other [simp]: "a \<noteq> b \<Longrightarrow> at_addr a f (m(b := y)) = (at_addr a f m)(b := y)"
  by (auto simp add: at_addr_def)

lemma at_addr_apply: "at_addr a f m b = (if b = a then map_option f (m a) else m b)"
  by (simp add: at_addr_def)

lemma on_device_fields [simp]:
  "ivars (on_device a f d) = ivars d"
  "devices (on_device a f d) = at_addr a f (devices d)"
  "streams (on_device a f d) = streams d"
  "levelControls (on_device a f d) = levelControls d"
  "booleanControls (on_device a f d) = booleanControls d"
  "buffers (on_device a f d) = buffers d"
  "nextAddr (on_device a f d) = nextAddr d"
  "audioObjects (on_device a f d) = audioObjects d"
  "serviceRegistered (on_device a f d) = serviceRegistered d"
  "calls (on_device a f d) = calls d"
  by (simp_all add: on_device_def)

lemma on_stream_fields [simp]:
  "ivars (on_stream a f d) = ivars d"
  "devices (on_stream a f d) = devices d"
  "streams (on_stream a f d) = at_addr a f (streams d)"
  "levelControls (on_stream a f d) = levelControls d"
  "booleanControls (on_stream a f d) = booleanControls d"
  "buffers (on_stream a f d) = buffers d"
  "nextAddr (on_stream a f d) = nextAddr d"
  "audioObjects (on_stream a f d) = audioObjects d"
  "serviceRegistered (on_stream a f d) = serviceRegistered d"
  "calls (on_stream a f d) = calls d"
  by (simp_all add: on_stream_def)

lemma no_memory_neq [simp]: "kIOReturnNoMemory \<noteq> kIOReturnSuccess"
  by (simp add: kIOReturnNoMemory_def kIOReturnSuccess_def)

lemmas framework_defs =
  IOUserAudioDevice_Create_def IOUserAudioStream_Create_def
  IOUserAudioLevelControl_Create_def IOUserAudioBooleanControl_Create_def
  IOBufferMemoryDescriptor_Create_def Device_AddStream_def Device_AddControl_def
  AddObject_def RemoveObject_def Stream_SetIOMemoryDescriptor_def Device_StartIO_def
  Device_StopIO_def RegisterService_def Device_SetName_def Device_SetModelUID_def
  Device_SetManufacturer_def Device_SetCanBeDefault_def
  Device_SetCanBeDefaultForSystemSounds_def Device_SetSampleRate_def
  Device_SetZeroTimeStampPeriod_def Stream_SetName_def Stream_SetAvailableStreamFormats_def
  Stream_SetCurrentStreamFormat_def super_Start_def super_Stop_def

lemmas access_defs = ivar_def ivar_obj_def assign_def set_ivars_def

section \<open>free\<close>

lemma reset_fields:
  assumes "ivars d = Some iv"
  shows "ivars (reset field upd d) = Some (upd (\<lambda>_. None) iv)"
    and "calls (reset field upd d) = calls d @ map Call_release (held (field iv))"
  using assms by (simp_all add: reset_def assign_def)

lemma free_calls:
  "calls (free d) =
     calls d @
     (case ivars d of
        None \<Rightarrow> []
      | Some iv \<Rightarrow> map Call_release (declaration_order iv) @ [Call_IOSafeDeleteNULL]) @
     [Call_super_free]"
  by (simp add: free_def Let_def reset_fields declaration_order_def split: option.split)

lemma free_ivars: "ivars (free d) = None"
  by (simp add: free_def Let_def split: option.split)

section \<open>Start\<close>

lemma stage_weak_cong: "r = r' \<Longrightarrow> stage r k = stage r' k"
  by simp

lemma checked_weak_cong: "r = r' \<Longrightarrow> checked r k = checked r' k"
  by simp

lemma stage_simps:
  "stage None k = None"
  "stage (Some (r, d)) k = (if r = kIOReturnSuccess then k d else Some (r, d))"
  "checked (r, d) k = (if r = kIOReturnSuccess then k d else Some (r, d))"
  by (simp_all add: stage_def checked_def)

lemma created_simps [simp]:
  "created ok = kIOReturnSuccess \<longleftrightarrow> ok"
  "created False = kIOReturnNoMemory"
  "created True = kIOReturnSuccess"
  by (simp_all add: created_def)

lemmas stage_defs =
  create_audio_device_def create_output_stream_def
  create_input_stream_def create_volume_control_def create_mute_control_def
  add_output_stream_def add_input_stream_def add_volume_control_def add_mute_control_def
  add_device_to_driver_def create_output_buffer_def create_input_buffer_def
  set_output_buffer_def set_input_buffer_def activate_device_def

lemmas Start_eval =
  Start_def stage_simps stage_defs framework_defs access_defs Let_def

lemma Start_trace:
  assumes "ivars d = Some iv" "fresh_IVars iv"
  shows "\<exists>d'. Start h d = Some (fst (run_script (Start_script h (nextAddr d))), d') \<and>
           calls d' = calls d @ snd (run_script (Start_script h (nextAddr d))) \<and>
           owned d' = [nextAddr d ..< nextAddr d']"
  using assms
  by (simp add: Start_eval fresh_IVars_def Start_script_def held_def owned_def
        construction_order_def upt_rec
        cong: stage_weak_cong checked_weak_cong)

lemma Start_null_ivars:
  assumes "ivars d = None"
  shows "Start h d =
           (if super_Start_ret h = kIOReturnSuccess then None
            else Some (super_Start_ret h, record_call Call_super_Start d))"
  using assms by (simp add: Start_eval cong: stage_weak_cong checked_weak_cong)

lemma Start_status:
  assumes "ivars d = Some iv"
  shows "(\<exists>d'. Start h d = Some (kIOReturnSuccess, d')) \<longleftrightarrow> all_ok h"
  using assms
  by (simp add: Start_eval all_ok_def cong: stage_weak_cong checked_weak_cong)

lemma Start_SuccessD:
  assumes "Start h d = Some (kIOReturnSuccess, d')"
  shows "all_ok h \<and> (\<exists>iv. ivars d = Some iv)"
proof (cases "ivars d")
  case None
  with assms show ?thesis
    by (simp add: Start_null_ivars split: if_splits)
next
  case (Some iv)
  with assms Start_status [OF Some, of h] show ?thesis
    by blast
qed

lemma bufferSize_value: "bufferSize = 4096"
  by (simp add: bufferSize_def kBufferFrames_def kBytesPerFrame_def kBitsPerChannel_def
      kNumChannels_def)

text \<open>The object graph that a successful \<^verbatim>\<open>Start\<close> leaves behind.\<close>

lemma Start_all_ok:
  assumes "all_ok h" "ivars d = Some iv"
  shows "\<exists>d'. Start h d = Some (kIOReturnSuccess, d') \<and>
     ivars d' = Some (iv\<lparr>audioDevice := Some (nextAddr d),
                          inputStream := Some (nextAddr d + 2),
                          outputStream := Some (nextAddr d + 1),
                          volumeControl := Some (nextAddr d + 3),
                          muteControl := Some (nextAddr d + 4),
                          inputBuffer := Some (nextAddr d + 6),
                          outputBuffer := Some (nextAddr d + 5)\<rparr>) \<and>
     map_option streamList (devices d' (nextAddr d)) = Some [nextAddr d + 1, nextAddr d + 2] \<and>
     map_option controlList (devices d' (nextAddr d)) = Some [nextAddr d + 3, nextAddr d + 4] \<and>
     map_option ioStarted (devices d' (nextAddr d)) = Some True \<and>
     map_option direction (streams d' (nextAddr d + 1)) = Some Output \<and>
     map_option direction (streams d' (nextAddr d + 2)) = Some Input \<and>
     map_option currentFormat (streams d' (nextAddr d + 1)) = Some (Some Start_format) \<and>
     map_option currentFormat (streams d' (nextAddr d + 2)) = Some (Some Start_format) \<and>
     map_option ioMemoryDescriptor (streams d' (nextAddr d + 1)) = Some (Some (nextAddr d + 5)) \<and>
     map_option ioMemoryDescriptor (streams d' (nextAddr d + 2)) = Some (Some (nextAddr d + 6)) \<and>
     map_option bufferCapacity (buffers d' (nextAddr d + 5)) = Some (ucast bufferSize) \<and>
     map_option bufferCapacity (buffers d' (nextAddr d + 6)) = Some (ucast bufferSize) \<and>
     audioObjects d' = audioObjects d @ [nextAddr d] \<and>
     levelControls d' (nextAddr d + 3) =
       Some \<lparr>levelSettable = True, levelValue = 0, levelRange = volumeRange,
             levelType = Volume, levelObjectID = kVolumeControlObjectID\<rparr> \<and>
     booleanControls d' (nextAddr d + 4) =
       Some \<lparr>booleanSettable = True, booleanValue = False, booleanType = Mute,
             booleanObjectID = kMuteControlObjectID\<rparr>"
  using assms
  by (simp add: Start_eval all_ok_def cong: stage_weak_cong checked_weak_cong)


lemma Start_graph:
  assumes "Start h d = Some (kIOReturnSuccess, d')"
  shows "ivar_obj audioDevice d' = Some (nextAddr d)"
    and "\<exists>D. devices d' (nextAddr d) = Some D \<and>
             streamList D = [nextAddr d + 1, nextAddr d + 2] \<and>
             controlList D = [nextAddr d + 3, nextAddr d + 4] \<and> ioStarted D"
    and "\<exists>S. streams d' (nextAddr d + 1) = Some S \<and> direction S = Output \<and>
             currentFormat S = Some Start_format \<and>
             ioMemoryDescriptor S = Some (nextAddr d + 5)"
    and "\<exists>S. streams d' (nextAddr d + 2) = Some S \<and> direction S = Input \<and>
             currentFormat S = Some Start_format \<and>
             ioMemoryDescriptor S = Some (nextAddr d + 6)"
    and "\<exists>B. buffers d' (nextAddr d + 5) = Some B \<and> bufferCapacity B = ucast bufferSize"
    and "\<exists>B. buffers d' (nextAddr d + 6) = Some B \<and> bufferCapacity B = ucast bufferSize"
    and "audioObjects d' = audioObjects d @ [nextAddr d]"
    and "ivar isRunning d' = ivar isRunning d"
    and "ivar volumeLevel d' = ivar volumeLevel d"
    and "ivar isMuted d' = ivar isMuted d"
    and "\<exists>iv. ivars d' = Some iv"
    and "levelControls d' (nextAddr d + 3) =
           Some \<lparr>levelSettable = True, levelValue = 0, levelRange = volumeRange,
                 levelType = Volume, levelObjectID = kVolumeControlObjectID\<rparr>"
    and "booleanControls d' (nextAddr d + 4) =
           Some \<lparr>booleanSettable = True, booleanValue = False, booleanType = Mute,
                 booleanObjectID = kMuteControlObjectID\<rparr>"
proof -
  from Start_SuccessD [OF assms] obtain iv where ok: "all_ok h" and iv: "ivars d = Some iv"
    by blast
  from Start_all_ok [OF ok iv] assms obtain
    f1: "ivars d' = Some (iv\<lparr>audioDevice := Some (nextAddr d),
                          inputStream := Some (nextAddr d + 2),
                          outputStream := Some (nextAddr d + 1),
                          volumeControl := Some (nextAddr d + 3),
                          muteControl := Some (nextAddr d + 4),
                          inputBuffer := Some (nextAddr d + 6),
                          outputBuffer := Some (nextAddr d + 5)\<rparr>)" and
    f2: "map_option streamList (devices d' (nextAddr d)) = Some [nextAddr d + 1, nextAddr d + 2]" and
    f3: "map_option controlList (devices d' (nextAddr d)) = Some [nextAddr d + 3, nextAddr d + 4]" and
    f4: "map_option ioStarted (devices d' (nextAddr d)) = Some True" and
    f5: "map_option direction (streams d' (nextAddr d + 1)) = Some Output" and
    f6: "map_option direction (streams d' (nextAddr d + 2)) = Some Input" and
    f7: "map_option currentFormat (streams d' (nextAddr d + 1)) = Some (Some Start_format)" and
    f8: "map_option currentFormat (streams d' (nextAddr d + 2)) = Some (Some Start_format)" and
    f9: "map_option ioMemoryDescriptor (streams d' (nextAddr d + 1)) = Some (Some (nextAddr d + 5))" and
    f10: "map_option ioMemoryDescriptor (streams d' (nextAddr d + 2)) = Some (Some (nextAddr d + 6))" and
    f11: "map_option bufferCapacity (buffers d' (nextAddr d + 5)) = Some (ucast bufferSize)" and
    f12: "map_option bufferCapacity (buffers d' (nextAddr d + 6)) = Some (ucast bufferSize)" and
    f13: "audioObjects d' = audioObjects d @ [nextAddr d]" and
    f14: "levelControls d' (nextAddr d + 3) =
           Some \<lparr>levelSettable = True, levelValue = 0, levelRange = volumeRange,
                 levelType = Volume, levelObjectID = kVolumeControlObjectID\<rparr>" and
    f15: "booleanControls d' (nextAddr d + 4) =
           Some \<lparr>booleanSettable = True, booleanValue = False, booleanType = Mute,
                 booleanObjectID = kMuteControlObjectID\<rparr>"
    by auto
  show "ivar_obj audioDevice d' = Some (nextAddr d)"
    using f1 by (simp add: ivar_obj_def)
  show "\<exists>D. devices d' (nextAddr d) = Some D \<and>
             streamList D = [nextAddr d + 1, nextAddr d + 2] \<and>
             controlList D = [nextAddr d + 3, nextAddr d + 4] \<and> ioStarted D"
    using f2 f3 f4 by (cases "devices d' (nextAddr d)") simp_all
  show "\<exists>S. streams d' (nextAddr d + 1) = Some S \<and> direction S = Output \<and>
             currentFormat S = Some Start_format \<and>
             ioMemoryDescriptor S = Some (nextAddr d + 5)"
    using f5 f7 f9 by (cases "streams d' (nextAddr d + 1)") simp_all
  show "\<exists>S. streams d' (nextAddr d + 2) = Some S \<and> direction S = Input \<and>
             currentFormat S = Some Start_format \<and>
             ioMemoryDescriptor S = Some (nextAddr d + 6)"
    using f6 f8 f10 by (cases "streams d' (nextAddr d + 2)") simp_all
  show "\<exists>B. buffers d' (nextAddr d + 5) = Some B \<and> bufferCapacity B = ucast bufferSize"
    using f11 by (cases "buffers d' (nextAddr d + 5)") simp_all
  show "\<exists>B. buffers d' (nextAddr d + 6) = Some B \<and> bufferCapacity B = ucast bufferSize"
    using f12 by (cases "buffers d' (nextAddr d + 6)") simp_all
  show "audioObjects d' = audioObjects d @ [nextAddr d]"
    by (rule f13)
  show "ivar isRunning d' = ivar isRunning d"
    using f1 iv by (simp add: ivar_def)
  show "ivar volumeLevel d' = ivar volumeLevel d"
    using f1 iv by (simp add: ivar_def)
  show "ivar isMuted d' = ivar isMuted d"
    using f1 iv by (simp add: ivar_def)
  show "\<exists>iv. ivars d' = Some iv"
    using f1 by simp
  show "levelControls d' (nextAddr d + 3) =
           Some \<lparr>levelSettable = True, levelValue = 0, levelRange = volumeRange,
                 levelType = Volume, levelObjectID = kVolumeControlObjectID\<rparr>"
    by (rule f14)
  show "booleanControls d' (nextAddr d + 4) =
           Some \<lparr>booleanSettable = True, booleanValue = False, booleanType = Mute,
                 booleanObjectID = kMuteControlObjectID\<rparr>"
    by (rule f15)
qed

text \<open>
  The volume control is created settable, at 0 dB, with the range from -96 dB to 0 dB.
  Changing its value is the framework's business: the driver has no method for it.
\<close>

lemma Start_volume_range:
  assumes "Start h d = Some (kIOReturnSuccess, d')"
  shows "\<exists>c C. ivar_obj volumeControl d' = Some c \<and> levelControls d' c = Some C \<and>
           levelSettable C \<and> levelValue C = 0 \<and>
           rangeMinimum (levelRange C) = - 96 \<and> rangeMaximum (levelRange C) = 0"
proof -
  from Start_SuccessD [OF assms] obtain iv where ok: "all_ok h" and iv: "ivars d = Some iv"
    by blast
  from Start_all_ok [OF ok iv] assms have "ivar_obj volumeControl d' = Some (nextAddr d + 3)"
    by (auto simp add: ivar_obj_def)
  with Start_graph(12) [OF assms] show ?thesis
    by (simp add: volumeRange_def)
qed

lemma run_script_no_teardown:
  "\<not> list_ex is_teardown (map (fst \<circ> snd) script) \<Longrightarrow>
     \<not> list_ex is_teardown (snd (run_script script))"
  by (induction script rule: run_script.induct) (auto split: prod.splits)

lemma Start_script_no_teardown:
  "\<not> list_ex is_teardown (map (fst \<circ> snd) (Start_script h n))"
  by (simp add: Start_script_def)

lemma Start_script_sorted: "sorted (map fst (Start_script h n))"
  by (simp add: Start_script_def)

lemma formats_consistent_cong:
  assumes "ivar_obj audioDevice d' = ivar_obj audioDevice d"
    and "\<And>a. map_option streamList (devices d' a) = map_option streamList (devices d a)"
    and "streams d' = streams d"
  shows "formats_consistent d' = formats_consistent d"
proof -
  have "stream_carries d' = stream_carries d"
    using assms(3) by (intro ext) (simp add: stream_carries_def)
  moreover have "attached_streams d' = attached_streams d"
  proof (cases "ivar_obj audioDevice d")
    case None
    with assms(1) show ?thesis
      by (simp add: attached_streams_def)
  next
    case (Some dev)
    with assms(1) assms(2) [of dev] show ?thesis
      by (cases "devices d dev"; cases "devices d' dev") (simp_all add: attached_streams_def)
  qed
  ultimately show ?thesis
    by (simp add: formats_consistent_def)
qed

lemma Start_formats_built:
  assumes "ivars d = Some iv" "super_Start_ret h = kIOReturnSuccess"
  shows "case Start h d of None \<Rightarrow> True | Some (r, d') \<Rightarrow> formats_consistent d'"
  using assms
  by (simp add: Start_eval formats_consistent_def attached_streams_def stream_carries_def
        cong: stage_weak_cong checked_weak_cong)

lemma Start_super_failed:
  assumes "super_Start_ret h \<noteq> kIOReturnSuccess"
  shows "Start h d = Some (super_Start_ret h, record_call Call_super_Start d)"
  using assms by (simp add: Start_def stage_simps super_Start_def cong: checked_weak_cong)

lemma Start_formats:
  assumes "Start h d = Some (r, d')" "formats_consistent d"
  shows "formats_consistent d'"
proof (cases "super_Start_ret h = kIOReturnSuccess")
  case False
  with assms(1) have "d' = record_call Call_super_Start d"
    by (simp add: Start_super_failed)
  with assms(2) show ?thesis
    by (simp add: formats_consistent_cong [of "record_call Call_super_Start d" d] ivar_obj_def)
next
  case True
  show ?thesis
  proof (cases "ivars d")
    case None
    with assms(1) True show ?thesis
      by (simp add: Start_null_ivars)
  next
    case (Some iv)
    from Start_formats_built [OF Some True] assms(1) show ?thesis
      by simp
  qed
qed

lemma Start_format_values:
  "format_invariant Start_format"
  "mFramesPerPacket Start_format = 1"
  "mSampleRate Start_format = 48000"
  "mChannelsPerFrame Start_format = 2"
  "mBitsPerChannel Start_format = 32"
  "mBytesPerFrame Start_format = 8"
  by (simp_all add: format_invariant_def Start_format_def kBytesPerFrame_def
      kBitsPerChannel_def kNumChannels_def kSampleRate_def)

section \<open>Stop\<close>

lemma Stop_effect:
  assumes "ivars d = Some iv"
  shows "\<exists>d'. Stop h d = Some (super_Stop_ret h, d') \<and> ivars d' = Some iv \<and>
           calls d' = calls d @ Stop_device_calls iv @ [Call_super_Stop]"
  using assms
  by (simp add: Stop_def framework_defs access_defs Let_def Stop_device_calls_def
        split: option.split)

lemma Stop_fields:
  assumes "Stop h d = Some (r, d')"
  shows "ivars d' = ivars d"
    and "streams d' = streams d"
    and "map_option streamList (devices d' a) = map_option streamList (devices d a)"
proof -
  from assms obtain iv where iv: "ivars d = Some iv"
    by (cases "ivars d") (simp_all add: Stop_def ivar_def)
  show "ivars d' = ivars d"
    using assms iv
    by (cases "audioDevice iv") (auto simp add: Stop_def framework_defs ivar_def Let_def)
  show "streams d' = streams d"
    using assms iv
    by (cases "audioDevice iv") (auto simp add: Stop_def framework_defs ivar_def Let_def)
  show "map_option streamList (devices d' a) = map_option streamList (devices d a)"
    using assms iv
    by (cases "audioDevice iv"; cases "devices d a")
      (auto simp add: Stop_def framework_defs ivar_def Let_def at_addr_apply)
qed

lemma Stop_formats:
  assumes "Stop h d = Some (r, d')"
  shows "formats_consistent d' = formats_consistent d"
  using Stop_fields [OF assms]
  by (intro formats_consistent_cong) (simp_all add: ivar_obj_def)

lemma StartDevice_formats:
  assumes "StartDevice in_object_id in_flags d = Some (r, d')"
  shows "formats_consistent d' = formats_consistent d"
  using assms
  by (intro formats_consistent_cong)
    (auto simp add: StartDevice_def set_ivars_def ivar_obj_def split: option.splits)

lemma StopDevice_formats:
  assumes "StopDevice in_object_id in_flags d = Some (r, d')"
  shows "formats_consistent d' = formats_consistent d"
  using assms
  by (intro formats_consistent_cong)
    (auto simp add: StopDevice_def set_ivars_def ivar_obj_def split: option.splits)

lemma init_formats:
  assumes "init h d0 = (True, d)"
  shows "formats_consistent d"
  using assms
  by (auto simp add: init_def Let_def zero_IVars_def formats_consistent_def
      attached_streams_def ivar_obj_def split: if_splits)

lemma free_formats: "formats_consistent (free d)"
  by (simp add: formats_consistent_def attached_streams_def ivar_obj_def free_ivars)

section \<open>The reference run\<close>

lemma ivars_initialized: "ivars initialized = Some init_IVars"
  by (simp add: initialized_def init_def host_ok_def new_driver_def init_IVars_def Let_def)

lemma initialized_fields:
  "nextAddr initialized = 1"
  "calls initialized = [Call_super_init, Call_IONewZero]"
  "audioObjects initialized = []"
  by (simp_all add: initialized_def init_def host_ok_def new_driver_def Let_def)

lemma fresh_init_IVars: "fresh_IVars init_IVars"
  by (simp add: fresh_IVars_def init_IVars_def zero_IVars_def)

lemma all_ok_host_ok: "all_ok host_ok"
  by (simp add: all_ok_def host_ok_def)

lemma Start_host_ok: "Start host_ok initialized = Some (kIOReturnSuccess, started)"
proof -
  from Start_all_ok [OF all_ok_host_ok ivars_initialized]
  obtain d' where "Start host_ok initialized = Some (kIOReturnSuccess, d')"
    by blast
  then show ?thesis
    by (simp add: started_def)
qed

lemma ivars_started:
  "ivars started =
     Some (init_IVars\<lparr>audioDevice := Some 1, inputStream := Some 3, outputStream := Some 2,
                       volumeControl := Some 4, muteControl := Some 5,
                       inputBuffer := Some 7, outputBuffer := Some 6\<rparr>)"
proof -
  from Start_all_ok [OF all_ok_host_ok ivars_initialized] Start_host_ok
  have "ivars started =
     Some (init_IVars\<lparr>audioDevice := Some (nextAddr initialized),
                       inputStream := Some (nextAddr initialized + 2),
                       outputStream := Some (nextAddr initialized + 1),
                       volumeControl := Some (nextAddr initialized + 3),
                       muteControl := Some (nextAddr initialized + 4),
                       inputBuffer := Some (nextAddr initialized + 6),
                       outputBuffer := Some (nextAddr initialized + 5)\<rparr>)"
    by auto
  then show ?thesis
    by (simp add: initialized_fields)
qed

lemma initialized_addrs:
  "(1::nat) + 1 = 2" "(1::nat) + 2 = 3" "(1::nat) + 3 = 4"
  "(1::nat) + 4 = 5" "(1::nat) + 5 = 6" "(1::nat) + 6 = 7"
  by simp_all

lemma ucast_bufferSize: "(ucast bufferSize :: 64 word) = 4096"
  by (simp add: bufferSize_value)

lemma started_graph:
  "ivar_obj audioDevice started = Some 1"
  "\<exists>D. devices started 1 = Some D \<and> streamList D = [2, 3] \<and> controlList D = [4, 5] \<and>
        ioStarted D"
  "\<exists>S. streams started 2 = Some S \<and> direction S = Output \<and>
        currentFormat S = Some Start_format \<and> ioMemoryDescriptor S = Some 6"
  "\<exists>S. streams started 3 = Some S \<and> direction S = Input \<and>
        currentFormat S = Some Start_format \<and> ioMemoryDescriptor S = Some 7"
  "\<exists>B. buffers started 6 = Some B \<and> bufferCapacity B = 4096"
  "\<exists>B. buffers started 7 = Some B \<and> bufferCapacity B = 4096"
  "audioObjects started = [1]"
  using Start_graph(1-7) [OF Start_host_ok]
  by (simp_all only: initialized_addrs initialized_fields ucast_bufferSize append_Nil)

lemma attached_streams_started: "attached_streams started = [2, 3]"
  using started_graph(2) by (auto simp add: attached_streams_def started_graph(1))

lemma started_not_running: "ivar isRunning started = Some False"
  using Start_graph(8) [OF Start_host_ok]
  by (simp add: ivar_def ivars_initialized init_IVars_def)

lemma no_buffer_script:
  "run_script (Start_script (host_ok\<lparr>output_buffer_create_ret := kIOReturnNoMemory\<rparr>) 1) =
     (kIOReturnNoMemory,
      [Call_super_Start, Call_Device_Create,
       Call_Device_SetName 1, Call_Device_SetModelUID 1, Call_Device_SetManufacturer 1,
       Call_Device_SetCanBeDefault 1, Call_Device_SetCanBeDefaultForSystemSounds 1,
       Call_Device_SetSampleRate 1, Call_Device_SetZeroTimeStampPeriod 1,
       Call_Stream_Create Output, Call_Stream_SetName 2,
       Call_Stream_SetAvailableStreamFormats 2, Call_Stream_SetCurrentStreamFormat 2,
       Call_Stream_Create Input, Call_Stream_SetName 3,
       Call_Stream_SetAvailableStreamFormats 3, Call_Stream_SetCurrentStreamFormat 3,
       Call_LevelControl_Create, Call_BooleanControl_Create,
       Call_Device_AddStream 1 2, Call_Device_AddStream 1 3,
       Call_Device_AddControl 1 4, Call_Device_AddControl 1 5, Call_AddObject 1,
       Call_Buffer_Create 4096])"
  by (simp add: Start_script_def host_ok_def bufferSize_value)

text \<open>Who writes the flag \<^verbatim>\<open>isRunning\<close>.\<close>

lemma Start_isRunning_built:
  assumes "ivars d = Some iv" "super_Start_ret h = kIOReturnSuccess"
  shows "case Start h d of None \<Rightarrow> True
         | Some (r, d') \<Rightarrow> ivar isRunning d' = Some (isRunning iv)"
  using assms
  by (simp add: Start_eval cong: stage_weak_cong checked_weak_cong)

lemma Start_isRunning:
  assumes "Start h d = Some (r, d')"
  shows "ivar isRunning d' = ivar isRunning d"
proof (cases "super_Start_ret h = kIOReturnSuccess")
  case False
  with assms have "d' = record_call Call_super_Start d"
    by (simp add: Start_super_failed)
  then show ?thesis
    by (simp add: ivar_def)
next
  case True
  show ?thesis
  proof (cases "ivars d")
    case None
    with assms True show ?thesis
      by (simp add: Start_null_ivars)
  next
    case (Some iv)
    from Start_isRunning_built [OF Some True] assms Some show ?thesis
      by (simp add: ivar_def)
  qed
qed

lemma init_isRunning:
  assumes "init h d0 = (True, d1)"
  shows "ivar isRunning d1 = Some False"
  using assms
  by (auto simp add: init_def Let_def ivar_def split: if_splits)

lemma free_isRunning: "ivar isRunning (free d) = None"
  by (simp add: ivar_def free_ivars)

lemma init_host_ok: "init host_ok new_driver = (True, initialized)"
  by (simp add: initialized_def init_def host_ok_def Let_def)

section \<open>Properties of the driver\<close>

subsection \<open>Order of construction in \<^verbatim>\<open>Start\<close>\<close>

text \<open>
  C1, as stated: the eleven steps run in the listed order, step (3) being "create the
  output stream and attach format and buffer", and a step begins only after the one
  before it succeeded. So, whenever the creation of the input stream (step 4) has been
  called, the output stream would have its buffer. The code sets buffers on streams only
  in step (9): when the creation of the input stream fails, \<^verbatim>\<open>Start\<close> returns with an
  output stream that has its format and no buffer.
\<close>

theorem Start_output_buffer_not_set_in_step_3:
  "\<not> (\<forall>h d r d'. Start h d = Some (r, d') \<longrightarrow>
          Call_Stream_Create Input \<in> set (calls_since d d') \<longrightarrow>
          output_stream_has_buffer d')"
proof
  assume claim: "\<forall>h d r d'. Start h d = Some (r, d') \<longrightarrow>
          Call_Stream_Create Input \<in> set (calls_since d d') \<longrightarrow>
          output_stream_has_buffer d'"
  let ?h = "host_ok\<lparr>input_stream_create_ok := False\<rparr>"
  have "\<exists>d'. Start ?h initialized = Some (kIOReturnNoMemory, d') \<and>
          Call_Stream_Create Input \<in> set (calls_since initialized d') \<and>
          stream_carries d' Start_format 2 \<and>
          \<not> output_stream_has_buffer d'"
    using ivars_initialized
    by (simp add: Start_eval host_ok_def calls_since_def output_stream_has_buffer_def
        stream_carries_def initialized_fields cong: stage_weak_cong checked_weak_cong)
  with claim show False
    by blast
qed

text \<open>
  C1, amended: on a state block that holds no object yet, \<^verbatim>\<open>Start\<close> makes exactly the
  calls of \<open>Start_script\<close>, in that order, up to and including the first tested
  call that does not succeed, and returns that call's status (no memory for a creation
  that yields null), or success when every tested call succeeds. The script's step
  numbers never decrease: base-class start, (1) create the device and set its
  properties, (3) create the output stream and set its formats, (4) the same for the
  input stream, (5) create the two controls, (6) add streams and controls to the device,
  (7) add the device to the driver, (8) create the two buffers, (9) set each buffer on
  its stream, (10) start I/O, (11) register the service, whose result is not tested.
  No call made undoes anything, and every object created is still owned on return.
\<close>

theorem Start_follows_script:
  assumes "ivars d = Some iv" and "fresh_IVars iv"
  shows "\<exists>d'. Start h d = Some (fst (run_script (Start_script h (nextAddr d))), d') \<and>
           calls d' = calls d @ snd (run_script (Start_script h (nextAddr d))) \<and>
           sorted (map fst (Start_script h (nextAddr d))) \<and>
           \<not> list_ex is_teardown (snd (run_script (Start_script h (nextAddr d)))) \<and>
           owned d' = [nextAddr d ..< nextAddr d']"
  using Start_trace [OF assms, of h] Start_script_sorted [of h "nextAddr d"]
    run_script_no_teardown [OF Start_script_no_teardown, of h "nextAddr d"]
  by blast

theorem Start_follows_script_witness:
  "ivars initialized = Some init_IVars \<and> fresh_IVars init_IVars \<and>
   (\<exists>d'. Start (host_ok\<lparr>output_buffer_create_ret := kIOReturnNoMemory\<rparr>) initialized =
            Some (kIOReturnNoMemory, d') \<and>
          calls d' =
            [Call_super_init, Call_IONewZero, Call_super_Start, Call_Device_Create,
             Call_Device_SetName 1, Call_Device_SetModelUID 1, Call_Device_SetManufacturer 1,
             Call_Device_SetCanBeDefault 1, Call_Device_SetCanBeDefaultForSystemSounds 1,
             Call_Device_SetSampleRate 1, Call_Device_SetZeroTimeStampPeriod 1,
             Call_Stream_Create Output, Call_Stream_SetName 2,
             Call_Stream_SetAvailableStreamFormats 2, Call_Stream_SetCurrentStreamFormat 2,
             Call_Stream_Create Input, Call_Stream_SetName 3,
             Call_Stream_SetAvailableStreamFormats 3, Call_Stream_SetCurrentStreamFormat 3,
             Call_LevelControl_Create, Call_BooleanControl_Create,
             Call_Device_AddStream 1 2, Call_Device_AddStream 1 3,
             Call_Device_AddControl 1 4, Call_Device_AddControl 1 5, Call_AddObject 1,
             Call_Buffer_Create 4096])"
proof -
  let ?h = "host_ok\<lparr>output_buffer_create_ret := kIOReturnNoMemory\<rparr>"
  from Start_follows_script [OF ivars_initialized fresh_init_IVars, of ?h]
  obtain d' where
    run: "Start ?h initialized =
            Some (fst (run_script (Start_script ?h (nextAddr initialized))), d')" and
    trace: "calls d' = calls initialized @ snd (run_script (Start_script ?h (nextAddr initialized)))"
    by blast
  from run have "Start ?h initialized = Some (kIOReturnNoMemory, d')"
    unfolding initialized_fields no_buffer_script by simp
  moreover from trace have "calls d' =
            [Call_super_init, Call_IONewZero, Call_super_Start, Call_Device_Create,
             Call_Device_SetName 1, Call_Device_SetModelUID 1, Call_Device_SetManufacturer 1,
             Call_Device_SetCanBeDefault 1, Call_Device_SetCanBeDefaultForSystemSounds 1,
             Call_Device_SetSampleRate 1, Call_Device_SetZeroTimeStampPeriod 1,
             Call_Stream_Create Output, Call_Stream_SetName 2,
             Call_Stream_SetAvailableStreamFormats 2, Call_Stream_SetCurrentStreamFormat 2,
             Call_Stream_Create Input, Call_Stream_SetName 3,
             Call_Stream_SetAvailableStreamFormats 3, Call_Stream_SetCurrentStreamFormat 3,
             Call_LevelControl_Create, Call_BooleanControl_Create,
             Call_Device_AddStream 1 2, Call_Device_AddStream 1 3,
             Call_Device_AddControl 1 4, Call_Device_AddControl 1 5, Call_AddObject 1,
             Call_Buffer_Create 4096]"
    unfolding initialized_fields no_buffer_script by simp
  ultimately show ?thesis
    using ivars_initialized fresh_init_IVars by (intro conjI exI [of _ d']) simp_all
qed

subsection \<open>The object graph after a successful \<^verbatim>\<open>Start\<close>\<close>

text \<open>
  C2: after \<^verbatim>\<open>Start\<close> has returned success, the device of the state block has exactly
  two streams, the first an output stream and the second an input stream; each has a
  buffer set on it, the two buffers are different objects, and the capacity of each is
  512 times the bytes per frame of the stream's format.
\<close>

theorem Start_streams_and_buffers:
  assumes "Start h d = Some (kIOReturnSuccess, d')"
  shows "\<exists>dev D so si SO SI F bo bi BO BI.
     ivar_obj audioDevice d' = Some dev \<and> devices d' dev = Some D \<and>
     streamList D = [so, si] \<and> so \<noteq> si \<and>
     streams d' so = Some SO \<and> direction SO = Output \<and>
     streams d' si = Some SI \<and> direction SI = Input \<and>
     currentFormat SO = Some F \<and> currentFormat SI = Some F \<and>
     ioMemoryDescriptor SO = Some bo \<and> ioMemoryDescriptor SI = Some bi \<and> bo \<noteq> bi \<and>
     buffers d' bo = Some BO \<and> buffers d' bi = Some BI \<and>
     unat (bufferCapacity BO) = 512 * unat (mBytesPerFrame F) \<and>
     unat (bufferCapacity BI) = 512 * unat (mBytesPerFrame F)"
proof -
  have size: "unat (ucast bufferSize :: 64 word) = 512 * unat (mBytesPerFrame Start_format)"
    by (simp add: bufferSize_value Start_format_values)
  from Start_graph(2) [OF assms] obtain D where
    D: "devices d' (nextAddr d) = Some D" "streamList D = [nextAddr d + 1, nextAddr d + 2]"
    by blast
  from Start_graph(3) [OF assms] obtain SO where
    SO: "streams d' (nextAddr d + 1) = Some SO" "direction SO = Output"
      "currentFormat SO = Some Start_format" "ioMemoryDescriptor SO = Some (nextAddr d + 5)"
    by blast
  from Start_graph(4) [OF assms] obtain SI where
    SI: "streams d' (nextAddr d + 2) = Some SI" "direction SI = Input"
      "currentFormat SI = Some Start_format" "ioMemoryDescriptor SI = Some (nextAddr d + 6)"
    by blast
  from Start_graph(5) [OF assms] obtain BO where
    BO: "buffers d' (nextAddr d + 5) = Some BO" "bufferCapacity BO = ucast bufferSize"
    by blast
  from Start_graph(6) [OF assms] obtain BI where
    BI: "buffers d' (nextAddr d + 6) = Some BI" "bufferCapacity BI = ucast bufferSize"
    by blast
  show ?thesis
    apply (rule exI [of _ "nextAddr d"], rule exI [of _ D])
    apply (rule exI [of _ "nextAddr d + 1"], rule exI [of _ "nextAddr d + 2"])
    apply (rule exI [of _ SO], rule exI [of _ SI], rule exI [of _ Start_format])
    apply (rule exI [of _ "nextAddr d + 5"], rule exI [of _ "nextAddr d + 6"])
    apply (rule exI [of _ BO], rule exI [of _ BI])
    using Start_graph(1) [OF assms] D SO SI BO BI size
    apply simp
    done
qed

theorem Start_streams_and_buffers_witness:
  "Start host_ok initialized = Some (kIOReturnSuccess, started) \<and>
   attached_streams started = [2, 3] \<and>
   (\<exists>dev D so si SO SI F bo bi BO BI.
     ivar_obj audioDevice started = Some dev \<and> devices started dev = Some D \<and>
     streamList D = [so, si] \<and> so \<noteq> si \<and>
     streams started so = Some SO \<and> direction SO = Output \<and>
     streams started si = Some SI \<and> direction SI = Input \<and>
     currentFormat SO = Some F \<and> currentFormat SI = Some F \<and>
     ioMemoryDescriptor SO = Some bo \<and> ioMemoryDescriptor SI = Some bi \<and> bo \<noteq> bi \<and>
     buffers started bo = Some BO \<and> buffers started bi = Some BI \<and>
     unat (bufferCapacity BO) = 512 * unat (mBytesPerFrame F) \<and>
     unat (bufferCapacity BI) = 512 * unat (mBytesPerFrame F))"
proof -
  from Start_host_ok attached_streams_started Start_streams_and_buffers [OF Start_host_ok]
  show ?thesis
    by (intro conjI)
qed


subsection \<open>The stream format\<close>

text \<open>
  C3: every stream attached to the driver's device carries the one format built in
  \<^verbatim>\<open>Start\<close>, as its current format and as its only available format. This is an
  invariant of the driver: \<^verbatim>\<open>init\<close> establishes it, \<^verbatim>\<open>Start\<close> keeps it whatever status
  it returns, and so do \<^verbatim>\<open>Stop\<close>, the notification handlers and \<^verbatim>\<open>free\<close>. In that format
  the bytes per frame are the channel count times an eighth of the bits per channel,
  and the frames per packet are 1 (48000 Hz, 2 channels, 32 bits, 8 bytes per frame).
\<close>

theorem formats_consistent_invariant:
  assumes "formats_consistent d"
  shows "(\<forall>r d'. Start h d = Some (r, d') \<longrightarrow> formats_consistent d') \<and>
         (\<forall>r d'. Stop h d = Some (r, d') \<longrightarrow> formats_consistent d') \<and>
         (\<forall>r d'. StartDevice in_object_id in_flags d = Some (r, d') \<longrightarrow> formats_consistent d') \<and>
         (\<forall>r d'. StopDevice in_object_id in_flags d = Some (r, d') \<longrightarrow> formats_consistent d') \<and>
         (\<forall>r d'. PerformDeviceConfigurationChange in_object_id in_change_action
                   in_change_info d = Some (r, d') \<longrightarrow> formats_consistent d') \<and>
         (\<forall>r d'. AbortDeviceConfigurationChange in_object_id in_change_action
                   in_change_info d = Some (r, d') \<longrightarrow> formats_consistent d') \<and>
         (\<forall>r d'. HandleChangedStreamFormat in_object_id in_stream in_old_format
                   in_new_format d = Some (r, d') \<longrightarrow> formats_consistent d') \<and>
         formats_consistent (free d) \<and>
         (\<forall>d0 d1. init h d0 = (True, d1) \<longrightarrow> formats_consistent d1) \<and>
         format_invariant Start_format \<and>
         mFramesPerPacket Start_format = 1 \<and> mSampleRate Start_format = 48000 \<and>
         mChannelsPerFrame Start_format = 2 \<and> mBitsPerChannel Start_format = 32 \<and>
         mBytesPerFrame Start_format = 8"
proof -
  have "\<forall>r d'. Start h d = Some (r, d') \<longrightarrow> formats_consistent d'"
    using Start_formats assms by blast
  moreover have "\<forall>r d'. Stop h d = Some (r, d') \<longrightarrow> formats_consistent d'"
    using Stop_formats assms by blast
  moreover have
    "\<forall>r d'. StartDevice in_object_id in_flags d = Some (r, d') \<longrightarrow> formats_consistent d'"
  proof (intro allI impI)
    fix r d'
    assume "StartDevice in_object_id in_flags d = Some (r, d')"
    from StartDevice_formats [OF this] assms show "formats_consistent d'"
      by simp
  qed
  moreover have
    "\<forall>r d'. StopDevice in_object_id in_flags d = Some (r, d') \<longrightarrow> formats_consistent d'"
  proof (intro allI impI)
    fix r d'
    assume "StopDevice in_object_id in_flags d = Some (r, d')"
    from StopDevice_formats [OF this] assms show "formats_consistent d'"
      by simp
  qed
  moreover have "\<forall>d0 d1. init h d0 = (True, d1) \<longrightarrow> formats_consistent d1"
    using init_formats by blast
  ultimately show ?thesis
    using assms free_formats [of d] Start_format_values
    by (simp add: PerformDeviceConfigurationChange_def AbortDeviceConfigurationChange_def
        HandleChangedStreamFormat_def)
qed

theorem formats_consistent_invariant_witness:
  "formats_consistent initialized \<and>
   Start host_ok initialized = Some (kIOReturnSuccess, started) \<and>
   attached_streams started = [2, 3] \<and>
   stream_carries started Start_format 2 \<and> stream_carries started Start_format 3 \<and>
   formats_consistent started \<and> format_invariant Start_format"
proof -
  have init: "formats_consistent initialized"
    by (simp add: formats_consistent_def attached_streams_def ivar_obj_def ivars_initialized
        init_IVars_def zero_IVars_def)
  have "\<forall>r d'. Start host_ok initialized = Some (r, d') \<longrightarrow> formats_consistent d'"
    by (rule conjunct1 [OF formats_consistent_invariant [OF init, of host_ok]])
  with Start_host_ok have "formats_consistent started"
    by blast
  then show ?thesis
    using Start_host_ok init attached_streams_started Start_format_values(1)
    by (simp add: formats_consistent_def)
qed

subsection \<open>The running flag\<close>

text \<open>
  C4, as stated: when \<^verbatim>\<open>Start\<close> returns success, the flag \<^verbatim>\<open>isRunning\<close> is set. The code
  of \<^verbatim>\<open>Start\<close> never writes the flag: after \<^verbatim>\<open>init\<close> and a successful \<^verbatim>\<open>Start\<close> it is
  still false.
\<close>

theorem Start_does_not_set_isRunning:
  "\<not> (\<forall>h d d'. Start h d = Some (kIOReturnSuccess, d') \<longrightarrow> ivar isRunning d' = Some True)"
proof
  assume "\<forall>h d d'. Start h d = Some (kIOReturnSuccess, d') \<longrightarrow> ivar isRunning d' = Some True"
  with Start_host_ok have "ivar isRunning started = Some True"
    by blast
  with started_not_running show False
    by simp
qed

text \<open>
  C4, amended: when \<^verbatim>\<open>Start\<close> returns success, the device exists, has been added to
  the driver and has had its I/O started; the fields \<^verbatim>\<open>isRunning\<close>, \<^verbatim>\<open>volumeLevel\<close> and
  \<^verbatim>\<open>isMuted\<close> of the state block are as they were before the call. The flag becomes
  true only when the start notification \<^verbatim>\<open>StartDevice\<close> is handled: \<^verbatim>\<open>init\<close> leaves it
  false; \<^verbatim>\<open>Start\<close> with any status, \<^verbatim>\<open>Stop\<close> and the three configuration and format
  handlers leave it as it is; \<^verbatim>\<open>StopDevice\<close> makes it false; \<^verbatim>\<open>free\<close> leaves no state
  block to read it from.
\<close>

theorem Start_success_state:
  assumes "Start h d = Some (kIOReturnSuccess, d')"
  shows "ivar isRunning d' = ivar isRunning d \<and>
         ivar volumeLevel d' = ivar volumeLevel d \<and>
         ivar isMuted d' = ivar isMuted d \<and>
         (\<exists>dev D. ivar_obj audioDevice d' = Some dev \<and> devices d' dev = Some D \<and>
                  ioStarted D \<and> dev \<in> set (audioObjects d')) \<and>
         (\<exists>d''. StartDevice in_object_id in_flags d' = Some (kIOReturnSuccess, d'') \<and>
                ivar isRunning d'' = Some True) \<and>
         (\<forall>h0 d0 d1. init h0 d0 = (True, d1) \<longrightarrow> ivar isRunning d1 = Some False) \<and>
         (\<forall>h1 e r e'. Start h1 e = Some (r, e') \<longrightarrow> ivar isRunning e' = ivar isRunning e) \<and>
         (\<forall>h1 e r e'. Stop h1 e = Some (r, e') \<longrightarrow> ivar isRunning e' = ivar isRunning e) \<and>
         (\<forall>e r e'. StopDevice in_object_id in_flags e = Some (r, e') \<longrightarrow>
                    ivar isRunning e' = Some False) \<and>
         (\<forall>e r e'. PerformDeviceConfigurationChange in_object_id in_change_action
                     in_change_info e = Some (r, e') \<longrightarrow>
                    ivar isRunning e' = ivar isRunning e) \<and>
         (\<forall>e r e'. AbortDeviceConfigurationChange in_object_id in_change_action
                     in_change_info e = Some (r, e') \<longrightarrow>
                    ivar isRunning e' = ivar isRunning e) \<and>
         (\<forall>e r e'. HandleChangedStreamFormat in_object_id in_stream in_old_format
                     in_new_format e = Some (r, e') \<longrightarrow>
                    ivar isRunning e' = ivar isRunning e) \<and>
         (\<forall>e. ivar isRunning (free e) = None)"
proof -
  from Start_graph(2) [OF assms] obtain D where
    "devices d' (nextAddr d) = Some D" and "ioStarted D"
    by blast
  with Start_graph(1,7) [OF assms]
  have dev: "\<exists>dev D. ivar_obj audioDevice d' = Some dev \<and> devices d' dev = Some D \<and>
                  ioStarted D \<and> dev \<in> set (audioObjects d')"
    by simp
  from Start_graph(11) [OF assms] obtain iv' where "ivars d' = Some iv'"
    by blast
  then have run: "\<exists>d''. StartDevice in_object_id in_flags d' = Some (kIOReturnSuccess, d'') \<and>
                ivar isRunning d'' = Some True"
    by (simp add: StartDevice_def set_ivars_def ivar_def)
  have i: "\<forall>h0 d0 d1. init h0 d0 = (True, d1) \<longrightarrow> ivar isRunning d1 = Some False"
    using init_isRunning by blast
  have s: "\<forall>h1 e r e'. Start h1 e = Some (r, e') \<longrightarrow> ivar isRunning e' = ivar isRunning e"
    using Start_isRunning by blast
  have t: "\<forall>h1 e r e'. Stop h1 e = Some (r, e') \<longrightarrow> ivar isRunning e' = ivar isRunning e"
    using Stop_fields(1) by (simp add: ivar_def)
  have sd: "\<forall>e r e'. StopDevice in_object_id in_flags e = Some (r, e') \<longrightarrow>
                    ivar isRunning e' = Some False"
    by (auto simp add: StopDevice_def set_ivars_def ivar_def split: option.splits)
  show ?thesis
    using Start_graph(8-10) [OF assms] dev run i s t sd free_isRunning
    by (simp add: PerformDeviceConfigurationChange_def AbortDeviceConfigurationChange_def
        HandleChangedStreamFormat_def)
qed

theorem Start_success_state_witness:
  "init host_ok new_driver = (True, initialized) \<and>
   ivar isRunning initialized = Some False \<and>
   Start host_ok initialized = Some (kIOReturnSuccess, started) \<and>
   ivar isRunning started = Some False \<and>
   (\<exists>D. ivar_obj audioDevice started = Some 1 \<and> devices started 1 = Some D \<and> ioStarted D) \<and>
   audioObjects started = [1] \<and>
   (\<exists>d''. StartDevice (1 :: 32 word) (0 :: 64 word) started = Some (kIOReturnSuccess, d'') \<and>
          ivar isRunning d'' = Some True)"
proof -
  note th = Start_success_state [OF Start_host_ok]
  have same: "ivar isRunning started = ivar isRunning initialized"
    by (rule th [THEN conjunct1])
  have "\<forall>h0 d0 d1. init h0 d0 = (True, d1) \<longrightarrow> ivar isRunning d1 = Some False"
    by (rule th [THEN conjunct2, THEN conjunct2, THEN conjunct2, THEN conjunct2,
          THEN conjunct2, THEN conjunct1])
  with init_host_ok have off: "ivar isRunning initialized = Some False"
    by blast
  have on: "\<exists>d''. StartDevice (1 :: 32 word) (0 :: 64 word) started =
                    Some (kIOReturnSuccess, d'') \<and> ivar isRunning d'' = Some True"
    by (rule th [THEN conjunct2, THEN conjunct2, THEN conjunct2, THEN conjunct2,
          THEN conjunct1])
  from started_graph(2) have
    dev: "\<exists>D. ivar_obj audioDevice started = Some 1 \<and> devices started 1 = Some D \<and> ioStarted D"
    using started_graph(1) by blast
  from same off have "ivar isRunning started = Some False"
    by simp
  with init_host_ok off Start_host_ok dev started_graph(7) on show ?thesis
    by (intro conjI)
qed

subsection \<open>\<^verbatim>\<open>free\<close>\<close>

text \<open>
  C5, as stated: \<^verbatim>\<open>free\<close> gives up the owned objects in the reverse of the order in
  which \<^verbatim>\<open>Start\<close> constructed them. On the state left by a successful \<^verbatim>\<open>Start\<close> it does
  not: the device, constructed first, is given up first.
\<close>

theorem free_not_in_reverse_construction_order:
  "\<not> (\<forall>d. calls_since d (free d) =
             map Call_release (rev (owned d)) @ [Call_IOSafeDeleteNULL, Call_super_free])"
proof
  assume "\<forall>d. calls_since d (free d) =
             map Call_release (rev (owned d)) @ [Call_IOSafeDeleteNULL, Call_super_free]"
  then have "calls_since started (free started) =
             map Call_release (rev (owned started)) @ [Call_IOSafeDeleteNULL, Call_super_free]"
    by blast
  then show False
    by (simp add: calls_since_def free_calls owned_def ivars_started declaration_order_def
        construction_order_def held_def)
qed

text \<open>
  C5, amended: \<^verbatim>\<open>free\<close> can be called in every state, also when \<^verbatim>\<open>ivars\<close> is null and
  when only part of the objects exist. When \<^verbatim>\<open>ivars\<close> is not null, it gives up every
  object the state block holds, in the order in which the structure declares its
  fields (device, input stream, output stream, volume control, mute control, input
  buffer, output buffer), then deletes the state block; in both cases it ends with the
  base class's \<^verbatim>\<open>free\<close>. Afterwards \<^verbatim>\<open>ivars\<close> is null and nothing is owned.
\<close>

theorem free_releases_in_declaration_order:
  "calls (free d) =
     calls d @
     (case ivars d of
        None \<Rightarrow> []
      | Some iv \<Rightarrow> map Call_release (declaration_order iv) @ [Call_IOSafeDeleteNULL]) @
     [Call_super_free] \<and>
   ivars (free d) = None \<and> owned (free d) = []"
  by (simp add: free_calls free_ivars owned_def)

subsection \<open>\<^verbatim>\<open>Stop\<close>\<close>

text \<open>
  C6, as stated: of two calls of \<^verbatim>\<open>Stop\<close> in a row both return success and the second
  does not stop or withdraw the device again. \<^verbatim>\<open>Stop\<close> does not clear the pointer to the
  device: after a successful \<^verbatim>\<open>Start\<close>, the second \<^verbatim>\<open>Stop\<close> stops I/O on the device and
  removes it from the driver once more.
\<close>

theorem Stop_twice_repeats_device_calls:
  "\<not> (\<forall>h d r1 d1 r2 d2.
         Stop h d = Some (r1, d1) \<longrightarrow> Stop h d1 = Some (r2, d2) \<longrightarrow>
         r1 = kIOReturnSuccess \<and> r2 = kIOReturnSuccess \<and>
         \<not> list_ex is_teardown (calls_since d1 d2))"
proof
  assume claim: "\<forall>h d r1 d1 r2 d2.
         Stop h d = Some (r1, d1) \<longrightarrow> Stop h d1 = Some (r2, d2) \<longrightarrow>
         r1 = kIOReturnSuccess \<and> r2 = kIOReturnSuccess \<and>
         \<not> list_ex is_teardown (calls_since d1 d2)"
  from Stop_effect [OF ivars_started, of host_ok] obtain d1 where
    s1: "Stop host_ok started = Some (super_Stop_ret host_ok, d1)" and
    iv1: "ivars d1 = ivars started"
    by (auto simp add: ivars_started)
  from Stop_effect [OF iv1 [unfolded ivars_started], of host_ok] obtain d2 where
    s2: "Stop host_ok d1 = Some (super_Stop_ret host_ok, d2)" and
    c2: "calls d2 = calls d1 @ [Call_Device_StopIO 1, Call_RemoveObject 1, Call_super_Stop]"
    by (auto simp add: Stop_device_calls_def)
  from claim s1 s2 have "\<not> list_ex is_teardown (calls_since d1 d2)"
    by blast
  with c2 show False
    by (simp add: calls_since_def)
qed

text \<open>
  C6, amended: \<^verbatim>\<open>Stop\<close> returns the status of the base class's \<^verbatim>\<open>Stop\<close>, whatever the
  device calls answered, and leaves the state block as it was: the device is neither
  given up nor forgotten. Each call made while the state block holds a device, a second
  call in a row included, stops I/O on that device and removes it from the driver. When
  the state block holds no device, the only call made is the base class's \<^verbatim>\<open>Stop\<close>.
\<close>

theorem Stop_twice:
  assumes "ivars d = Some iv"
  shows "\<exists>d1 d2.
     Stop h1 d = Some (super_Stop_ret h1, d1) \<and> Stop h2 d1 = Some (super_Stop_ret h2, d2) \<and>
     ivars d1 = Some iv \<and> ivars d2 = Some iv \<and>
     calls_since d d1 = Stop_device_calls iv @ [Call_super_Stop] \<and>
     calls_since d1 d2 = Stop_device_calls iv @ [Call_super_Stop] \<and>
     (audioDevice iv = None \<longrightarrow> Stop_device_calls iv = [])"
proof -
  from Stop_effect [OF assms, of h1] obtain d1 where
    s1: "Stop h1 d = Some (super_Stop_ret h1, d1)" "ivars d1 = Some iv"
      "calls d1 = calls d @ Stop_device_calls iv @ [Call_super_Stop]"
    by blast
  from Stop_effect [OF s1(2), of h2] obtain d2 where
    s2: "Stop h2 d1 = Some (super_Stop_ret h2, d2)" "ivars d2 = Some iv"
      "calls d2 = calls d1 @ Stop_device_calls iv @ [Call_super_Stop]"
    by blast
  from s1 s2 show ?thesis
    by (intro exI [of _ d1] exI [of _ d2]) (simp add: calls_since_def Stop_device_calls_def)
qed

theorem Stop_twice_witness:
  "ivars started =
     Some (init_IVars\<lparr>audioDevice := Some 1, inputStream := Some 3, outputStream := Some 2,
                       volumeControl := Some 4, muteControl := Some 5,
                       inputBuffer := Some 7, outputBuffer := Some 6\<rparr>) \<and>
   (\<exists>d1 d2.
     Stop host_ok started = Some (kIOReturnSuccess, d1) \<and>
     Stop (host_ok\<lparr>super_Stop_ret := kIOReturnNoMemory\<rparr>) d1 = Some (kIOReturnNoMemory, d2) \<and>
     ivars d1 = ivars started \<and> ivars d2 = ivars started \<and>
     calls_since started d1 =
       [Call_Device_StopIO 1, Call_RemoveObject 1, Call_super_Stop] \<and>
     calls_since d1 d2 =
       [Call_Device_StopIO 1, Call_RemoveObject 1, Call_super_Stop]) \<and>
   ivars initialized = Some init_IVars \<and>
   (\<exists>d1 d2.
     Stop host_ok initialized = Some (kIOReturnSuccess, d1) \<and>
     Stop host_ok d1 = Some (kIOReturnSuccess, d2) \<and>
     calls_since initialized d1 = [Call_super_Stop] \<and>
     calls_since d1 d2 = [Call_super_Stop])"
proof -
  let ?iv = "init_IVars\<lparr>audioDevice := Some 1, inputStream := Some 3, outputStream := Some 2,
                       volumeControl := Some 4, muteControl := Some 5,
                       inputBuffer := Some 7, outputBuffer := Some 6\<rparr>"
  let ?h2 = "host_ok\<lparr>super_Stop_ret := kIOReturnNoMemory\<rparr>"
  have r1: "super_Stop_ret host_ok = kIOReturnSuccess"
    by (simp add: host_ok_def)
  have r2: "super_Stop_ret ?h2 = kIOReturnNoMemory"
    by simp
  have dev: "Stop_device_calls ?iv @ [Call_super_Stop] =
               [Call_Device_StopIO 1, Call_RemoveObject 1, Call_super_Stop]"
    by (simp add: Stop_device_calls_def)
  have none: "Stop_device_calls init_IVars @ [Call_super_Stop] = [Call_super_Stop]"
    by (simp add: Stop_device_calls_def init_IVars_def zero_IVars_def)
  from Stop_twice [OF ivars_started, of host_ok ?h2] obtain d1 d2 where
    "Stop host_ok started = Some (super_Stop_ret host_ok, d1)"
    "Stop ?h2 d1 = Some (super_Stop_ret ?h2, d2)"
    "ivars d1 = Some ?iv" "ivars d2 = Some ?iv"
    "calls_since started d1 = Stop_device_calls ?iv @ [Call_super_Stop]"
    "calls_since d1 d2 = Stop_device_calls ?iv @ [Call_super_Stop]"
    by blast
  then have
    "Stop host_ok started = Some (kIOReturnSuccess, d1)"
    "Stop ?h2 d1 = Some (kIOReturnNoMemory, d2)"
    "ivars d1 = ivars started" "ivars d2 = ivars started"
    "calls_since started d1 = [Call_Device_StopIO 1, Call_RemoveObject 1, Call_super_Stop]"
    "calls_since d1 d2 = [Call_Device_StopIO 1, Call_RemoveObject 1, Call_super_Stop]"
    by (simp_all only: r1 r2 dev ivars_started)
  then have present: "\<exists>d1 d2.
     Stop host_ok started = Some (kIOReturnSuccess, d1) \<and>
     Stop ?h2 d1 = Some (kIOReturnNoMemory, d2) \<and>
     ivars d1 = ivars started \<and> ivars d2 = ivars started \<and>
     calls_since started d1 =
       [Call_Device_StopIO 1, Call_RemoveObject 1, Call_super_Stop] \<and>
     calls_since d1 d2 =
       [Call_Device_StopIO 1, Call_RemoveObject 1, Call_super_Stop]"
    by blast
  from Stop_twice [OF ivars_initialized, of host_ok host_ok] obtain e1 e2 where
    "Stop host_ok initialized = Some (super_Stop_ret host_ok, e1)"
    "Stop host_ok e1 = Some (super_Stop_ret host_ok, e2)"
    "calls_since initialized e1 = Stop_device_calls init_IVars @ [Call_super_Stop]"
    "calls_since e1 e2 = Stop_device_calls init_IVars @ [Call_super_Stop]"
    by blast
  then have
    "Stop host_ok initialized = Some (kIOReturnSuccess, e1)"
    "Stop host_ok e1 = Some (kIOReturnSuccess, e2)"
    "calls_since initialized e1 = [Call_super_Stop]"
    "calls_since e1 e2 = [Call_super_Stop]"
    by (simp_all only: r1 none)
  then have absent: "\<exists>d1 d2.
     Stop host_ok initialized = Some (kIOReturnSuccess, d1) \<and>
     Stop host_ok d1 = Some (kIOReturnSuccess, d2) \<and>
     calls_since initialized d1 = [Call_super_Stop] \<and>
     calls_since d1 d2 = [Call_super_Stop]"
    by blast
  from ivars_started present ivars_initialized absent show ?thesis
    by (intro conjI)
qed

subsection \<open>The notification handlers\<close>

text \<open>
  C7: for every object id and every flags value, on an allocated state block,
  \<^verbatim>\<open>StartDevice\<close> returns success and sets \<^verbatim>\<open>isRunning\<close> to true, \<^verbatim>\<open>StopDevice\<close> returns
  success and sets it to false, and nothing else of the driver changes: not the other
  fields of the state block, not the objects, not the calls made.
\<close>

theorem StartDevice_StopDevice_effect:
  assumes "ivars d = Some iv"
  shows "StartDevice in_object_id in_flags d =
           Some (kIOReturnSuccess, d\<lparr>ivars := Some (iv\<lparr>isRunning := True\<rparr>)\<rparr>) \<and>
         StopDevice in_object_id in_flags d =
           Some (kIOReturnSuccess, d\<lparr>ivars := Some (iv\<lparr>isRunning := False\<rparr>)\<rparr>)"
  using assms by (simp add: StartDevice_def StopDevice_def set_ivars_def)

theorem StartDevice_StopDevice_effect_witness:
  "ivars started = Some (init_IVars\<lparr>audioDevice := Some 1, inputStream := Some 3,
      outputStream := Some 2, volumeControl := Some 4, muteControl := Some 5,
      inputBuffer := Some 7, outputBuffer := Some 6\<rparr>) \<and>
   StartDevice (1 :: 32 word) (0 :: 64 word) started =
     Some (kIOReturnSuccess,
       started\<lparr>ivars := Some (init_IVars\<lparr>audioDevice := Some 1, inputStream := Some 3,
         outputStream := Some 2, volumeControl := Some 4, muteControl := Some 5,
         inputBuffer := Some 7, outputBuffer := Some 6, isRunning := True\<rparr>)\<rparr>) \<and>
   StopDevice (1 :: 32 word) (0 :: 64 word) started =
     Some (kIOReturnSuccess,
       started\<lparr>ivars := Some (init_IVars\<lparr>audioDevice := Some 1, inputStream := Some 3,
         outputStream := Some 2, volumeControl := Some 4, muteControl := Some 5,
         inputBuffer := Some 7, outputBuffer := Some 6, isRunning := False\<rparr>)\<rparr>)"
  using StartDevice_StopDevice_effect [OF ivars_started, of 1 "0 :: 64 word"] ivars_started
  by simp

text \<open>
  C8: for every object id, change action, change information, stream and pair of
  formats, the three handlers \<^verbatim>\<open>PerformDeviceConfigurationChange\<close>,
  \<^verbatim>\<open>AbortDeviceConfigurationChange\<close> and \<^verbatim>\<open>HandleChangedStreamFormat\<close> return success and
  leave the whole driver state as it was.
\<close>

theorem configuration_handlers_acknowledge:
  "PerformDeviceConfigurationChange in_object_id in_change_action in_change_info d =
     Some (kIOReturnSuccess, d) \<and>
   AbortDeviceConfigurationChange in_object_id in_change_action in_change_info d =
     Some (kIOReturnSuccess, d) \<and>
   HandleChangedStreamFormat in_object_id in_stream in_old_format in_new_format d =
     Some (kIOReturnSuccess, d)"
  by (simp add: PerformDeviceConfigurationChange_def AbortDeviceConfigurationChange_def
      HandleChangedStreamFormat_def)

text \<open>
  C10: what \<^verbatim>\<open>StartDevice\<close> and \<^verbatim>\<open>StopDevice\<close> return and the state they leave do not
  depend on their arguments: from one state, two calls with any two object ids and any
  two flags values give the same result, and on an allocated state block that result
  has the status success.
\<close>

theorem StartDevice_StopDevice_ignore_arguments:
  "StartDevice id1 flags1 d = StartDevice id2 flags2 d \<and>
   StopDevice id1 flags1 d = StopDevice id2 flags2 d \<and>
   (ivars d \<noteq> None \<longrightarrow>
      (\<exists>d'. StartDevice id1 flags1 d = Some (kIOReturnSuccess, d') \<and>
            StartDevice id2 flags2 d = Some (kIOReturnSuccess, d')) \<and>
      (\<exists>d'. StopDevice id1 flags1 d = Some (kIOReturnSuccess, d') \<and>
            StopDevice id2 flags2 d = Some (kIOReturnSuccess, d')))"
  by (auto simp add: StartDevice_def StopDevice_def set_ivars_def)

theorem StartDevice_StopDevice_ignore_arguments_witness:
  "ivars initialized \<noteq> None \<and>
   StartDevice (1 :: 32 word) (0 :: 64 word) initialized =
     StartDevice (77 :: 32 word) True initialized \<and>
   StopDevice (1 :: 32 word) (0 :: 64 word) initialized =
     StopDevice (77 :: 32 word) True initialized \<and>
   (\<exists>d'. StartDevice (1 :: 32 word) (0 :: 64 word) initialized = Some (kIOReturnSuccess, d') \<and>
         StartDevice (77 :: 32 word) True initialized = Some (kIOReturnSuccess, d'))"
proof -
  have "ivars initialized \<noteq> None"
    by (simp add: ivars_initialized)
  with StartDevice_StopDevice_ignore_arguments [of 1 "0 :: 64 word" initialized 77 True]
  show ?thesis
    by blast
qed

end
